theory Spec2Isabelle
  imports Complex_Main "HOL-Library.Word"
begin

unbundle bit_operations_syntax

section \<open>Conventions of the embedding\<close>

text \<open>
  The program is \<^verbatim>\<open>llama2.cu\<close> (\<^verbatim>\<open>llama2.c\<close> holds an earlier copy of its loader and of its
  option handling). C \<^verbatim>\<open>int\<close> values are modelled as \<^typ>\<open>int\<close>, with the
  reduction to 32 bits written out at every product of the source (\<open>c_int\<close>); where the
  source's arithmetic is unsigned 64-bit the reduction modulo \<open>2 ^ 64\<close> is written out
  (\<open>ull\<close>).
  C strings are \<^typ>\<open>string\<close> (the bytes before the terminating NUL). \<^verbatim>\<open>float\<close> values are
  modelled as \<^typ>\<open>real\<close>: comparisons of floats are exact, arithmetic is taken without
  rounding, and no NaN or infinity occurs in the model.

  A fatal path of the source is a value of \<open>error\<close>: \<^verbatim>\<open>exit(c)\<close> is \<open>Exit c\<close>
  (\<^verbatim>\<open>EXIT_FAILURE\<close> is 1), an array access outside the allocation is \<open>OutOfBounds\<close>, and an
  integer division the machine traps on is \<open>ArithmeticTrap\<close>.
\<close>

datatype error = Exit int | OutOfBounds | ArithmeticTrap

definition EXIT_FAILURE :: int where
  "EXIT_FAILURE = 1"

section \<open>Tokenizer\<close>

text \<open>
  \<^verbatim>\<open>Tokenizer\<close>: \<^verbatim>\<open>vocab\<close> and \<^verbatim>\<open>vocab_scores\<close> are the two arrays allocated by
  \<^verbatim>\<open>build_tokenizer\<close>; the field \<^verbatim>\<open>vocab_size\<close> is the number of entries of \<^verbatim>\<open>vocab\<close>.
  \<^verbatim>\<open>byte_pieces\<close> is not read by \<^verbatim>\<open>encode\<close>.

  \<^verbatim>\<open>sorted_vocab\<close> is the index that \<^verbatim>\<open>encode\<close> builds from \<^verbatim>\<open>vocab\<close> with \<^verbatim>\<open>qsort\<close>
  (\<^verbatim>\<open>strcmp\<close> order, each entry carrying its id) and searches with \<^verbatim>\<open>bsearch\<close>. Where
  several pieces are equal, C fixes neither the order \<^verbatim>\<open>qsort\<close> leaves them in nor which
  of them \<^verbatim>\<open>bsearch\<close> finds: that depends on the C library. All that the program reads of
  the index is the entry found for a key, so the model keeps of it the field
  \<open>sorted_vocab_hit\<close>: for a key, the id of the entry that the search over the index finds
  when several entries equal the key.
\<close>

record Tokenizer =
  vocab :: "string list"
  vocab_scores :: "real list"
  sorted_vocab_hit :: "string \<Rightarrow> int"
  max_token_length :: nat

text \<open>The ids, from \<open>i\<close> on, of the pieces that are equal to \<^verbatim>\<open>str\<close>, in rising order.\<close>

fun ids_of :: "string \<Rightarrow> string list \<Rightarrow> int \<Rightarrow> int list" where
  "ids_of str [] i = []"
| "ids_of str (p # ps) i = (if p = str then i # ids_of str ps (i + 1) else ids_of str ps (i + 1))"

text \<open>
  \<^verbatim>\<open>str_lookup\<close>: \<^verbatim>\<open>bsearch\<close> over the sorted index returns an entry equal to \<^verbatim>\<open>str\<close>, or
  \<^verbatim>\<open>NULL\<close> when there is none, and \<^verbatim>\<open>str_lookup\<close> returns that entry's id, or \<open>-1\<close>. The
  entries equal to \<^verbatim>\<open>str\<close> are those of the ids \<open>ids_of str (vocab t) 0\<close>. When there is
  one, it is the entry found. When there are several, the entry found is the one that
  \<open>sorted_vocab_hit\<close> names; a value of that field that names none of them stands for the
  search that finds the lowest id.
\<close>

definition str_lookup :: "string \<Rightarrow> Tokenizer \<Rightarrow> int" where
  "str_lookup str t =
     (case ids_of str (vocab t) 0 of
        [] \<Rightarrow> -1
      | i # rest \<Rightarrow>
          if sorted_vocab_hit t str \<in> set (i # rest) then sorted_vocab_hit t str else i)"

text \<open>\<^verbatim>\<open>(*c & 0xC0) == 0x80\<close>: the byte is a UTF-8 continuation byte.\<close>

definition is_continuation :: "char \<Rightarrow> bool" where
  "is_continuation c = ((of_char c :: nat) AND 0xC0 = 0x80)"

text \<open>
  The byte loop of \<^verbatim>\<open>encode\<close> (\<^verbatim>\<open>for (char *c = text; *c != '\0'; c++)\<close>). \<open>str_buffer\<close> is
  the buffer up to \<^verbatim>\<open>str_len\<close>. The byte after the last one is the terminator, which is not
  a continuation byte.
\<close>

fun utf8_loop :: "Tokenizer \<Rightarrow> string \<Rightarrow> string \<Rightarrow> int list \<Rightarrow> int list" where
  "utf8_loop t [] str_buffer tokens = tokens"
| "utf8_loop t (c # cs) str_buffer tokens =
     (let buf = (if \<not> is_continuation c then [] else str_buffer) @ [c]
      in if (case cs of [] \<Rightarrow> False | d # _ \<Rightarrow> is_continuation d) \<and> length buf < 4
         then utf8_loop t cs buf tokens
         else (let id = str_lookup buf t
               in if id \<noteq> -1
                  then utf8_loop t cs [] (tokens @ [id])
                  else utf8_loop t cs [] (tokens @ map (\<lambda>b. int (of_char b) + 3) buf)))"

text \<open>Reads of \<^verbatim>\<open>t->vocab[i]\<close> and \<^verbatim>\<open>t->vocab_scores[i]\<close>, with the bounds made explicit.\<close>

definition vocab_at :: "Tokenizer \<Rightarrow> int \<Rightarrow> string option" where
  "vocab_at t i = (if 0 \<le> i \<and> i < int (length (vocab t)) then Some (vocab t ! nat i) else None)"

definition score_at :: "Tokenizer \<Rightarrow> int \<Rightarrow> real option" where
  "score_at t i =
     (if 0 \<le> i \<and> i < int (length (vocab_scores t)) then Some (vocab_scores t ! nat i) else None)"

text \<open>
  The three locals of one pass of the merge loop. \<^verbatim>\<open>-1e10\<close> is a float exactly (\<open>10 ^ 10\<close> is
  \<open>2 ^ 10 * 5 ^ 10\<close> and \<open>5 ^ 10 < 2 ^ 24\<close>).
\<close>

record Best =
  best_score :: real
  best_id :: int
  best_idx :: int

definition best_init :: Best where
  "best_init = \<lparr>best_score = - 10000000000, best_id = -1, best_idx = -1\<rparr>"

text \<open>
  The inner \<^verbatim>\<open>for (int i=0; i < (*n_tokens-1); i++)\<close>: the list argument is
  \<^verbatim>\<open>tokens[i..n_tokens-1]\<close>, so its first two elements are the pair \<^verbatim>\<open>(tokens[i],
  tokens[i+1])\<close>. \<^verbatim>\<open>sprintf\<close> reads both pieces before the lookup; \<^verbatim>\<open>str_buffer\<close> is taken
  to hold them (it does when no piece is longer than \<^verbatim>\<open>max_token_length\<close>). The score is
  read only when the lookup has found an id.
\<close>

fun best_pair :: "Tokenizer \<Rightarrow> int list \<Rightarrow> int \<Rightarrow> Best \<Rightarrow> error + Best" where
  "best_pair t (a # b # rest) i best =
     (case vocab_at t a of
        None \<Rightarrow> Inl OutOfBounds
      | Some pa \<Rightarrow>
          (case vocab_at t b of
             None \<Rightarrow> Inl OutOfBounds
           | Some pb \<Rightarrow>
               (let id = str_lookup (pa @ pb) t
                in if id \<noteq> -1
                   then (case score_at t id of
                           None \<Rightarrow> Inl OutOfBounds
                         | Some sc \<Rightarrow>
                             if sc > best_score best
                             then best_pair t (b # rest) (i + 1)
                                    \<lparr>best_score = sc, best_id = id, best_idx = i\<rparr>
                             else best_pair t (b # rest) (i + 1) best)
                   else best_pair t (b # rest) (i + 1) best)))"
| "best_pair t tokens i best = Inr best"

text \<open>
  \<^verbatim>\<open>tokens[best_idx] = best_id\<close>, then the shift of \<^verbatim>\<open>tokens[best_idx+2..]\<close> one place to
  the left and \<^verbatim>\<open>(*n_tokens)--\<close>.
\<close>

definition merge_at :: "int list \<Rightarrow> nat \<Rightarrow> int \<Rightarrow> int list" where
  "merge_at tokens idx new_id =
     (let tokens1 = tokens[idx := new_id] in take (idx + 1) tokens1 @ drop (idx + 2) tokens1)"

text \<open>One pass of \<^verbatim>\<open>while (1)\<close>: \<open>None\<close> is the \<^verbatim>\<open>break\<close>.\<close>

definition merge_step :: "Tokenizer \<Rightarrow> int list \<Rightarrow> error + int list option" where
  "merge_step t tokens =
     (case best_pair t tokens 0 best_init of
        Inl e \<Rightarrow> Inl e
      | Inr best \<Rightarrow>
          if best_idx best = -1 then Inr None
          else Inr (Some (merge_at tokens (nat (best_idx best)) (best_id best))))"


subsection \<open>The merge loop terminates\<close>

lemma best_pair_idx:
  "best_pair t tokens i best = Inr b \<Longrightarrow>
   best_idx b = best_idx best \<or> (i \<le> best_idx b \<and> best_idx b + 1 < i + int (length tokens))"
proof (induction t tokens i best rule: best_pair.induct)
  case (1 t a b' rest i best)
  then show ?case
    by (fastforce simp: Let_def split: option.splits if_splits)
qed simp_all

lemma merge_at_length:
  "idx + 1 < length tokens \<Longrightarrow> length (merge_at tokens idx new_id) + 1 = length tokens"
  by (simp add: merge_at_def Let_def)

lemma merge_step_length:
  assumes "merge_step t tokens = Inr (Some tokens')"
  shows "length tokens' + 1 = length tokens"
proof -
  from assms obtain b where b: "best_pair t tokens 0 best_init = Inr b"
    and idx: "best_idx b \<noteq> -1"
    and res: "tokens' = merge_at tokens (nat (best_idx b)) (best_id b)"
    by (auto simp: merge_step_def split: sum.splits if_splits)
  from best_pair_idx [OF b] idx
  have "0 \<le> best_idx b \<and> best_idx b + 1 < int (length tokens)"
    by (simp add: best_init_def)
  then have "nat (best_idx b) + 1 < length tokens" by linarith
  from merge_at_length [OF this] res show ?thesis by simp
qed

text \<open>
  The \<^verbatim>\<open>while (1)\<close> loop. The last argument counts the merges done so far; it is not a
  variable of the source and no result of the loop depends on it.
\<close>

function merge_loop :: "Tokenizer \<Rightarrow> int list \<Rightarrow> nat \<Rightarrow> (error + int list) \<times> nat" where
  "merge_loop t tokens n =
     (case merge_step t tokens of
        Inl e \<Rightarrow> (Inl e, n)
      | Inr None \<Rightarrow> (Inr tokens, n)
      | Inr (Some tokens') \<Rightarrow> merge_loop t tokens' (n + 1))"
  by pat_completeness auto
termination
proof (relation "measure (\<lambda>(t, tokens, n). length tokens)")
  fix t :: Tokenizer and tokens :: "int list" and n :: nat and x2 x2a
  assume "merge_step t tokens = Inr x2" "x2 = Some x2a"
  then have "length x2a + 1 = length tokens" by (intro merge_step_length) simp
  then show "((t, x2a, n + 1), (t, tokens, n)) \<in> measure (\<lambda>(t, tokens, n). length tokens)"
    by simp
qed simp

declare merge_loop.simps [simp del]

lemma merge_step_nonempty:
  assumes "merge_step t tokens = Inr (Some tokens')"
  shows "tokens' \<noteq> []"
proof -
  from assms obtain b where b: "best_pair t tokens 0 best_init = Inr b"
    and idx: "best_idx b \<noteq> -1"
    and res: "tokens' = merge_at tokens (nat (best_idx b)) (best_id b)"
    by (auto simp: merge_step_def split: sum.splits if_splits)
  from best_pair_idx [OF b] idx
  have "0 \<le> best_idx b \<and> best_idx b + 1 < int (length tokens)"
    by (simp add: best_init_def)
  then have "tokens \<noteq> []" by auto
  with res show ?thesis by (simp add: merge_at_def Let_def)
qed

text \<open>
  The tokens before the merge loop: the optional BOS (=1), the dummy prefix (the result of
  looking up the one-space string, stored without a test) when the text is not empty, and the
  tokens of the byte loop.
\<close>

definition pre_merge_tokens :: "Tokenizer \<Rightarrow> string \<Rightarrow> int \<Rightarrow> int list" where
  "pre_merge_tokens t text bos =
     (let tokens0 = (if bos \<noteq> 0 then [1] else []);
          tokens1 = (if text \<noteq> [] then tokens0 @ [str_lookup '' '' t] else tokens0)
      in utf8_loop t text [] tokens1)"

text \<open>
  \<^verbatim>\<open>encode\<close>, on a tokenizer whose sorted index is not built yet (the one call of the
  program). The text is \<open>None\<close> for a \<^verbatim>\<open>NULL\<close> pointer. The allocation of the index is
  refused, and the run ends in \<^verbatim>\<open>exit(-1)\<close>, when the vocabulary has no piece. The result is
  \<^verbatim>\<open>tokens[0..n_tokens-1]\<close>; the caller's array is taken to be large enough, as the source's
  comment asks.
\<close>

definition encode :: "Tokenizer \<Rightarrow> string option \<Rightarrow> int \<Rightarrow> int \<Rightarrow> error + int list" where
  "encode t text bos eos =
     (case text of
        None \<Rightarrow> Inl (Exit EXIT_FAILURE)
      | Some txt \<Rightarrow>
          if vocab t = [] then Inl (Exit (-1))
          else (case fst (merge_loop t (pre_merge_tokens t txt bos) 0) of
                  Inl e \<Rightarrow> Inl e
                | Inr tokens \<Rightarrow> Inr (if eos \<noteq> 0 then tokens @ [2] else tokens)))"


section \<open>Checkpoint loader\<close>

record Config =
  dim_cfg :: int
  hidden_dim :: int
  n_layers :: int
  n_heads :: int
  n_kv_heads :: int
  vocab_size :: int
  max_seq_len :: int

text \<open>
  A \<^verbatim>\<open>float*\<close> into the one buffer \<^verbatim>\<open>transformer->data\<close> is modelled as the index of the
  float it points at, counted from the start of the buffer, modulo \<open>2 ^ 62\<close>: an address
  has 64 bits and a float four bytes, so the pointer \<^verbatim>\<open>data + i\<close> is the address
  \<^verbatim>\<open>data\<close> plus \<open>4 * i\<close> modulo \<open>2 ^ 64\<close>, and two such pointers are the same address
  exactly when their indices agree modulo \<open>2 ^ 62\<close>. \<^verbatim>\<open>ptr += n\<close> adds \<open>n\<close> to the
  index, then, and wraps as the machine's address arithmetic does. The floats of the buffer
  are those of the indices below its length; an index that has wrapped below 0 is a number
  near \<open>2 ^ 62\<close>, outside every buffer.
\<close>

type_synonym float_ptr = "62 word"

text \<open>\<^verbatim>\<open>TransformerWeights\<close>: every field is a \<^verbatim>\<open>float*\<close> into \<^verbatim>\<open>transformer->data\<close>.\<close>

record TransformerWeights =
  token_embedding_table :: float_ptr
  rms_att_weight :: float_ptr
  rms_ffn_weight :: float_ptr
  wq :: float_ptr
  wk :: float_ptr
  wv :: float_ptr
  wo :: float_ptr
  w1 :: float_ptr
  w2 :: float_ptr
  w3 :: float_ptr
  rms_final_weight :: float_ptr
  wcls :: float_ptr

text \<open>
  \<^verbatim>\<open>RunState\<close>: the buffers that \<^verbatim>\<open>alloc_run_state\<close> allocates (the fields \<^verbatim>\<open>k\<close> and \<^verbatim>\<open>v\<close> are
  never allocated or assigned). The fields carry the prefix \<open>s_\<close>, as the source reaches
  them through \<^verbatim>\<open>s->\<close>.
\<close>

record RunState =
  s_x :: "real list"
  s_partial_sum :: "real list"
  s_xb :: "real list"
  s_xb2 :: "real list"
  s_hb :: "real list"
  s_hb2 :: "real list"
  s_q :: "real list"
  s_att :: "real list"
  s_logits :: "real list"
  s_key_cache :: "real list"
  s_value_cache :: "real list"

text \<open>
  \<^verbatim>\<open>Transformer\<close>. \<open>data\<close> is the contents of the managed allocation, in floats. The
  descriptor \<^verbatim>\<open>fd\<close> is closed again at the end of \<^verbatim>\<open>read_checkpoint\<close> and is left out.
\<close>

record Transformer =
  config :: Config
  weights :: TransformerWeights
  state :: RunState
  data :: "real list"
  file_size :: nat

type_synonym byte = "8 word"

text \<open>A 4-byte signed integer of the file, low byte first.\<close>

definition int32_le :: "byte list \<Rightarrow> int" where
  "int32_le bs =
     sint (word_of_nat (unat (bs ! 0) + 2 ^ 8 * unat (bs ! 1) + 2 ^ 16 * unat (bs ! 2)
                        + 2 ^ 24 * unat (bs ! 3)) :: 32 word)"

text \<open>
  \<^verbatim>\<open>fread(config, sizeof(Config), 1, file)\<close>: one item of 28 bytes, or no item when the file
  is shorter.
\<close>

definition read_config :: "byte list \<Rightarrow> Config option" where
  "read_config blob =
     (if length blob < 28 then None
      else Some \<lparr>dim_cfg = int32_le (take 4 blob),
                 hidden_dim = int32_le (take 4 (drop 4 blob)),
                 n_layers = int32_le (take 4 (drop 8 blob)),
                 n_heads = int32_le (take 4 (drop 12 blob)),
                 n_kv_heads = int32_le (take 4 (drop 16 blob)),
                 vocab_size = int32_le (take 4 (drop 20 blob)),
                 max_seq_len = int32_le (take 4 (drop 24 blob))\<rparr>)"

text \<open>
  C's \<^verbatim>\<open>abs\<close> on \<^verbatim>\<open>int\<close>. \<^verbatim>\<open>abs(INT_MIN)\<close> is undefined in C; two's-complement negation
  gives \<^verbatim>\<open>INT_MIN\<close> back, which is what the model returns there.
\<close>

definition c_abs :: "int \<Rightarrow> int" where
  "c_abs v = (if v = - (2 ^ 31) then - (2 ^ 31) else \<bar>v\<bar>)"

text \<open>
  The value of an \<^verbatim>\<open>int\<close> expression whose mathematical value is \<open>v\<close>. Signed overflow is
  undefined in C; the machine keeps the low 32 bits of the result, as a signed number, and
  that is what the model takes.
\<close>

definition c_int :: "int \<Rightarrow> int" where
  "c_int v = (v + 2 ^ 31) mod 2 ^ 32 - 2 ^ 31"

text \<open>
  C's \<^verbatim>\<open>/\<close> on \<^verbatim>\<open>int\<close> truncates towards zero. \<open>c_div\<close> is \<open>None\<close> where the machine
  traps: a zero divisor, and \<^verbatim>\<open>INT_MIN / -1\<close>.
\<close>

definition trunc_div :: "int \<Rightarrow> int \<Rightarrow> int" where
  "trunc_div a b = sgn a * sgn b * (\<bar>a\<bar> div \<bar>b\<bar>)"

definition c_div :: "int \<Rightarrow> int \<Rightarrow> int option" where
  "c_div a b = (if b = 0 \<or> (a = - (2 ^ 31) \<and> b = -1) then None else Some (trunc_div a b))"

text \<open>The value of an \<^verbatim>\<open>unsigned long long\<close> expression.\<close>

definition ull :: "int \<Rightarrow> int" where
  "ull v = v mod 2 ^ 64"

text \<open>
  \<^verbatim>\<open>memory_map_weights\<close>. \<^verbatim>\<open>n_layers\<close> is \<^verbatim>\<open>unsigned long long\<close>, so every product
  it takes part in is unsigned 64-bit (an \<^verbatim>\<open>int\<close> factor is converted first, which the
  reduction of the product modulo \<open>2 ^ 64\<close> covers); the products in brackets, the product
  \<^verbatim>\<open>config.vocab_size * config.dim\<close> and \<^verbatim>\<open>config.max_seq_len * head_size\<close> are \<^verbatim>\<open>int\<close>
  products. Every \<^verbatim>\<open>ptr += n\<close> is an addition of pointer arithmetic.
\<close>

definition memory_map_weights ::
  "Config \<Rightarrow> float_ptr \<Rightarrow> int \<Rightarrow> error + TransformerWeights" where
  "memory_map_weights c ptr shared_weights =
     (case c_div (dim_cfg c) (n_heads c) of
        None \<Rightarrow> Inl ArithmeticTrap
      | Some head_size \<Rightarrow>
          (let nl = ull (n_layers c);
               p0 = ptr;
               p1 = p0 + word_of_int (c_int (vocab_size c * dim_cfg c));
               p2 = p1 + word_of_int (ull (nl * dim_cfg c));
               p3 = p2 + word_of_int (ull (nl * dim_cfg c * c_int (n_heads c * head_size)));
               p4 = p3 + word_of_int (ull (nl * dim_cfg c * c_int (n_kv_heads c * head_size)));
               p5 = p4 + word_of_int (ull (nl * dim_cfg c * c_int (n_kv_heads c * head_size)));
               p6 = p5 + word_of_int (ull (nl * c_int (n_heads c * head_size) * dim_cfg c));
               p7 = p6 + word_of_int (ull (nl * dim_cfg c));
               p8 = p7 + word_of_int (ull (nl * dim_cfg c * hidden_dim c));
               p9 = p8 + word_of_int (ull (nl * hidden_dim c * dim_cfg c));
               p10 = p9 + word_of_int (ull (nl * dim_cfg c * hidden_dim c));
               p11 = p10 + word_of_int (dim_cfg c);
               p12 = p11 + word_of_int (trunc_div (c_int (max_seq_len c * head_size)) 2);
               p13 = p12 + word_of_int (trunc_div (c_int (max_seq_len c * head_size)) 2)
           in Inr \<lparr>token_embedding_table = p0, rms_att_weight = p1, rms_ffn_weight = p6,
                    wq = p2, wk = p3, wv = p4, wo = p5, w1 = p7, w2 = p8, w3 = p9,
                    rms_final_weight = p10,
                    wcls = (if shared_weights \<noteq> 0 then p0 else p13)\<rparr>))"

text \<open>
  Managed allocations (\<^verbatim>\<open>cudaMallocManaged\<close>). The memory is not cleared and the source
  never initialises it before reading it, so the contents of the \<open>k\<close>-th allocation are
  whatever the allocator hands out: \<open>fresh k\<close>. The allocator refuses the size 0, and a
  negative \<^verbatim>\<open>int\<close> count becomes, times \<^verbatim>\<open>sizeof(float)\<close>, a byte size above
  \<open>2 ^ 64 - 2 ^ 33\<close>, which it refuses too; \<^verbatim>\<open>checkCudaErrors\<close> turns a refusal into
  \<^verbatim>\<open>exit(-1)\<close>. Other allocations are taken to succeed.
\<close>

type_synonym allocator = "nat \<Rightarrow> nat \<Rightarrow> real"

definition alloc_floats :: "(nat \<Rightarrow> real) \<Rightarrow> int \<Rightarrow> real list" where
  "alloc_floats contents n = map contents [0..<nat n]"

text \<open>
  \<^verbatim>\<open>read_checkpoint\<close>. The checkpoint is \<open>None\<close> when \<^verbatim>\<open>fopen\<close> fails, else the bytes of
  the file. The second opening of the file, the allocation of \<^verbatim>\<open>file_size+1\<close> bytes and
  the prefetch hint are taken to succeed; the source never copies the file into the
  allocation. \<^verbatim>\<open>weights_ptr\<close> is \<^verbatim>\<open>data + sizeof(Config) / sizeof(float)\<close>, float 7 of the
  buffer. \<^verbatim>\<open>abs\<close> is applied to the stored vocabulary size after its sign has been read.
\<close>

definition read_checkpoint ::
  "allocator \<Rightarrow> byte list option \<Rightarrow> Transformer \<Rightarrow> error + Transformer" where
  "read_checkpoint fresh checkpoint transformer =
     (case checkpoint of
        None \<Rightarrow> Inl (Exit EXIT_FAILURE)
      | Some blob \<Rightarrow>
          (case read_config blob of
             None \<Rightarrow> Inl (Exit EXIT_FAILURE)
           | Some hdr \<Rightarrow>
               (let shared_weights = (if vocab_size hdr > 0 then 1 else 0);
                    c = hdr\<lparr>vocab_size := c_abs (vocab_size hdr)\<rparr>;
                    fsize = length blob;
                    mem = map (fresh 0) [0..<(fsize + 1) div 4];
                    weights_ptr = 7
                in case memory_map_weights c weights_ptr shared_weights of
                     Inl e \<Rightarrow> Inl e
                   | Inr w \<Rightarrow>
                       Inr (transformer\<lparr>config := c, weights := w, data := mem,
                                         file_size := fsize\<rparr>))))"

text \<open>
  \<^verbatim>\<open>alloc_run_state\<close>: allocations 1 to 11, in the order of the source. The counts are
  \<^verbatim>\<open>int\<close> expressions. The first refused allocation ends the run, so the run state exists
  when every count is positive.
\<close>

definition alloc_run_state :: "allocator \<Rightarrow> Config \<Rightarrow> error + RunState" where
  "alloc_run_state fresh c =
     (case c_div (c_int (dim_cfg c * n_kv_heads c)) (n_heads c) of
        None \<Rightarrow> Inl ArithmeticTrap
      | Some kv_dim \<Rightarrow>
          if dim_cfg c \<le> 0 \<or> hidden_dim c \<le> 0
             \<or> c_int (c_int (n_layers c * max_seq_len c) * kv_dim) \<le> 0
             \<or> c_int (n_heads c * max_seq_len c) \<le> 0 \<or> vocab_size c \<le> 0
          then Inl (Exit (-1))
          else Inr \<lparr>s_x = alloc_floats (fresh 1) (dim_cfg c),
                     s_partial_sum = alloc_floats (fresh 2) (dim_cfg c),
                     s_xb = alloc_floats (fresh 3) (dim_cfg c),
                     s_xb2 = alloc_floats (fresh 4) (dim_cfg c),
                     s_hb = alloc_floats (fresh 5) (hidden_dim c),
                     s_hb2 = alloc_floats (fresh 6) (hidden_dim c),
                     s_q = alloc_floats (fresh 7) (dim_cfg c),
                     s_att = alloc_floats (fresh 10) (c_int (n_heads c * max_seq_len c)),
                     s_logits = alloc_floats (fresh 11) (vocab_size c),
                     s_key_cache =
                       alloc_floats (fresh 8) (c_int (c_int (n_layers c * max_seq_len c) * kv_dim)),
                     s_value_cache =
                       alloc_floats (fresh 9) (c_int (c_int (n_layers c * max_seq_len c) * kv_dim))\<rparr>)"

definition build_transformer ::
  "allocator \<Rightarrow> byte list option \<Rightarrow> Transformer \<Rightarrow> error + Transformer" where
  "build_transformer fresh checkpoint_path transformer =
     (case read_checkpoint fresh checkpoint_path transformer of
        Inl e \<Rightarrow> Inl e
      | Inr tr \<Rightarrow>
          (case alloc_run_state fresh (config tr) of
             Inl e \<Rightarrow> Inl e
           | Inr s \<Rightarrow> Inr (tr\<lparr>state := s\<rparr>)))"

section \<open>Neural net blocks\<close>

text \<open>\<^verbatim>\<open>cudaCpuDeviceId\<close> is a constant of the CUDA runtime header: \<open>-1\<close>.\<close>

definition cudaCpuDeviceId :: int where
  "cudaCpuDeviceId = -1"

definition BLOCKSIZE :: int where
  "BLOCKSIZE = 256"

text \<open>
  A launch \<^verbatim>\<open>reduce<<<grid, BLOCKSIZE, BLOCKSIZE>>>(partial_o, x)\<close> is a function of the grid
  size, the input array and the output array before the launch, to the output array after
  it. The source does not determine that function: the kernel's loop has no barrier between
  its strides, and the launch gives the block 256 bytes of shared memory for 256 floats. So
  the function is a parameter, and the theorems below hold for every such function.
\<close>

type_synonym reduce_launch = "int \<Rightarrow> real list \<Rightarrow> real list \<Rightarrow> real list"

text \<open>
  Reads of \<open>n\<close> floats through a pointer \<open>off\<close> into a buffer, with the bounds made
  explicit.
\<close>

definition read_floats :: "real list \<Rightarrow> float_ptr \<Rightarrow> int \<Rightarrow> real list option" where
  "read_floats mem off n =
     (if 0 \<le> n \<and> int (unat off) + n \<le> int (length mem)
      then Some (take (nat n) (drop (unat off) mem)) else None)"

text \<open>
  \<^verbatim>\<open>rmsnorm\<close>. The result is the pair of the arrays \<^verbatim>\<open>o\<close> (here \<open>out\<close>) and \<^verbatim>\<open>partial_o\<close>
  after the call. \<open>weight\<close> is a pointer into \<open>mem\<close>.

  On the host path the two loops run over \<open>j < sz\<close> (the source's \<^verbatim>\<open>size\<close>); an access at
  an index outside \<^verbatim>\<open>x\<close>, \<^verbatim>\<open>o\<close> or the weights is \<open>OutOfBounds\<close>. On the other path the
  source calls \<^verbatim>\<open>rmsnorm_kernel()\<close> with no launch configuration and no argument, which
  launches nothing, launches \<^verbatim>\<open>reduce\<close> twice, computes the local \<^verbatim>\<open>ss\<close>, and ends at the
  comment \<^verbatim>\<open>// normalize and scale\<close>: no statement writes \<^verbatim>\<open>o\<close>.
  \<^verbatim>\<open>ceil(size / BLOCKSIZE)\<close> is the ceiling of an integer quotient, that is, the quotient.
  \<^verbatim>\<open>1e-5f\<close> is taken as \<open>1 / 100000\<close>.
\<close>

definition rmsnorm ::
  "reduce_launch \<Rightarrow> real list \<Rightarrow> real list \<Rightarrow> real list \<Rightarrow> real list \<Rightarrow> float_ptr \<Rightarrow> int
   \<Rightarrow> int \<Rightarrow> error + real list \<times> real list" where
  "rmsnorm reduce out x partial_o mem weight sz device =
     (if device = cudaCpuDeviceId
      then (if sz \<le> 0 then Inr (out, partial_o)
            else (case read_floats mem weight sz of
                    None \<Rightarrow> Inl OutOfBounds
                  | Some w \<Rightarrow>
                      if nat sz > length x \<or> nat sz > length out then Inl OutOfBounds
                      else (let ss0 = foldl (\<lambda>ss j. ss + x ! j * x ! j) 0 [0..<nat sz];
                                ss1 = ss0 / real_of_int sz;
                                ss2 = ss1 + 1 / 100000;
                                ss = 1 / sqrt ss2
                            in Inr (map (\<lambda>j. w ! j * (ss * x ! j)) [0..<nat sz]
                                      @ drop (nat sz) out,
                                    partial_o))))
      else (let GRIDSIZE = trunc_div sz BLOCKSIZE;
                partial1 = reduce GRIDSIZE x partial_o;
                partial2 = reduce 1 partial1 partial1
            in Inr (out, partial2)))"


section \<open>Forward pass\<close>

text \<open>
  The layer loop of \<^verbatim>\<open>forward\<close>, over the values of \<^verbatim>\<open>l\<close>. Its body is one statement, the
  attention \<^verbatim>\<open>rmsnorm\<close> from \<^verbatim>\<open>x\<close> into \<^verbatim>\<open>s->xb\<close>; \<^verbatim>\<open>l*dim\<close> is an unsigned 64-bit product,
  added to a pointer.
\<close>

fun forward_layers ::
  "reduce_launch \<Rightarrow> Transformer \<Rightarrow> int \<Rightarrow> nat list \<Rightarrow> RunState \<Rightarrow> error + RunState" where
  "forward_layers reduce transformer device [] s = Inr s"
| "forward_layers reduce transformer device (l # ls) s =
     (case rmsnorm reduce (s_xb s) (s_x s) (s_partial_sum s) (data transformer)
             (rms_att_weight (weights transformer)
                + word_of_int (ull (int l * dim_cfg (config transformer))))
             (dim_cfg (config transformer)) device of
        Inl e \<Rightarrow> Inl e
      | Inr (xb', partial') \<Rightarrow>
          forward_layers reduce transformer device ls (s\<lparr>s_xb := xb', s_partial_sum := partial'\<rparr>))"

text \<open>
  \<^verbatim>\<open>forward\<close>. The three quotients of its first lines are computed (and can trap) although
  nothing reads them. \<^verbatim>\<open>token * dim\<close> is an \<^verbatim>\<open>int\<close> product, added to a pointer. The copy of the embedding row is \<open>OutOfBounds\<close> when it leaves the
  buffers. \<^verbatim>\<open>pos\<close> is not read. The function is declared \<^verbatim>\<open>float*\<close> and has no \<^verbatim>\<open>return\<close>
  statement: the second component of the result, the value handed to the caller, is \<open>None\<close>.
\<close>

definition forward ::
  "reduce_launch \<Rightarrow> Transformer \<Rightarrow> int \<Rightarrow> int \<Rightarrow> int
   \<Rightarrow> error + Transformer \<times> real list option" where
  "forward reduce transformer token pos device =
     (let p = config transformer; w = weights transformer; s = state transformer;
          dim = dim_cfg p
      in case (c_div (c_int (dim * n_kv_heads p)) (n_heads p), c_div (n_heads p) (n_kv_heads p),
               c_div dim (n_heads p)) of
           (Some kv_dim, Some kv_mul, Some head_size) \<Rightarrow>
             (case read_floats (data transformer)
                     (token_embedding_table w + word_of_int (c_int (token * dim))) dim of
                None \<Rightarrow> Inl OutOfBounds
              | Some content_row \<Rightarrow>
                  if length (s_x s) < nat dim then Inl OutOfBounds
                  else (case forward_layers reduce transformer device [0..<nat (ull (n_layers p))]
                               (s\<lparr>s_x := content_row @ drop (nat dim) (s_x s)\<rparr>) of
                          Inl e \<Rightarrow> Inl e
                        | Inr s' \<Rightarrow> Inr (transformer\<lparr>state := s'\<rparr>, None)))
         | _ \<Rightarrow> Inl ArithmeticTrap)"

section \<open>Generation loop\<close>

text \<open>
  The loop \<^verbatim>\<open>while (pos < steps)\<close> of \<^verbatim>\<open>generate\<close>. The body calls \<^verbatim>\<open>forward\<close>, forces
  \<^verbatim>\<open>next\<close> from the prompt while \<^verbatim>\<open>pos < num_prompt_tokens - 1\<close> (the other branch holds only
  the commented-out call of \<^verbatim>\<open>sample\<close>, so \<^verbatim>\<open>next\<close> stays unset: \<open>None\<close>), increments
  \<^verbatim>\<open>pos\<close> and then runs \<^verbatim>\<open>exit(-1);   // stop for now\<close>. The rest of the body (the test
  \<^verbatim>\<open>next == 1\<close>, the decoding and \<^verbatim>\<open>token = next\<close>) is commented out, so no pass follows
  the first one and the loop needs no recursion. The result of a loop that is left by its
  condition is the final \<^verbatim>\<open>pos\<close>.
\<close>

definition generate_loop ::
  "reduce_launch \<Rightarrow> Transformer \<Rightarrow> int list \<Rightarrow> int \<Rightarrow> int \<Rightarrow> int \<Rightarrow> int \<Rightarrow> error + int" where
  "generate_loop reduce transformer prompt_tokens steps device token pos =
     (if pos < steps
      then (case forward reduce transformer token pos device of
              Inl e \<Rightarrow> Inl e
            | Inr (transformer', logits) \<Rightarrow>
                (let next = (if pos < int (length prompt_tokens) - 1
                             then Some (prompt_tokens ! nat (pos + 1)) else None);
                     pos' = pos + 1
                 in Inl (Exit (-1))))
      else Inr pos)"

text \<open>
  \<^verbatim>\<open>generate\<close>. A \<^verbatim>\<open>NULL\<close> prompt is the empty string. The \<^verbatim>\<open>Sampler\<close> argument is never
  read and is left out. The writes of \<^verbatim>\<open>encode\<close> into \<^verbatim>\<open>prompt_tokens\<close> are taken to succeed.
\<close>

definition generate ::
  "reduce_launch \<Rightarrow> Transformer \<Rightarrow> Tokenizer \<Rightarrow> string option \<Rightarrow> int \<Rightarrow> int \<Rightarrow> error + int" where
  "generate reduce transformer tokenizer prompt steps device =
     (let prompt' = (case prompt of None \<Rightarrow> [] | Some txt \<Rightarrow> txt)
      in case encode tokenizer (Some prompt') 1 0 of
           Inl e \<Rightarrow> Inl e
         | Inr prompt_tokens \<Rightarrow>
             if int (length prompt_tokens) < 1 then Inl (Exit EXIT_FAILURE)
             else generate_loop reduce transformer prompt_tokens steps device
                    (prompt_tokens ! 0) 0)"

section \<open>Run parameters\<close>

text \<open>
  The locals of \<^verbatim>\<open>main\<close> that the parameter block reads. \<^verbatim>\<open>rng_seed\<close> is
  \<^verbatim>\<open>unsigned long long\<close>. \<^verbatim>\<open>0.9f\<close> is taken as \<open>9 / 10\<close>.
\<close>

record Params =
  temperature :: real
  topp :: real
  steps :: int
  rng_seed :: "64 word"
  device :: int
  mode :: string

text \<open>The initial values of these locals (\<^verbatim>\<open>// Parameter setup\<close>).\<close>

definition default_params :: Params where
  "default_params = \<lparr>temperature = 1, topp = 9 / 10, steps = 256, rng_seed = 0, device = -1,
     mode = ''generate''\<rparr>"

text \<open>
  The option \<^verbatim>\<open>-s\<close>: \<^verbatim>\<open>rng_seed = atoi(optarg);\<close>. \<open>k\<close> is the \<^verbatim>\<open>int\<close> that \<^verbatim>\<open>atoi\<close> returns;
  the assignment converts it to \<^verbatim>\<open>unsigned long long\<close>.
\<close>

definition option_s :: "int \<Rightarrow> Params \<Rightarrow> Params" where
  "option_s k p = p\<lparr>rng_seed := word_of_int k\<rparr>"

text \<open>
  \<^verbatim>\<open>// parameter validation/correction\<close>: the five statements before
  \<^verbatim>\<open>build_transformer\<close>, each of which tests and assigns one local. \<open>now\<close> is
  \<^verbatim>\<open>(unsigned long long)time(NULL)\<close>.
\<close>

definition validate_params :: "64 word \<Rightarrow> Params \<Rightarrow> Params" where
  "validate_params now p =
     \<lparr>temperature = (if temperature p < 0 then 0 else temperature p),
      topp = (if topp p < 0 \<or> 1 \<le> topp p then 9 / 10 else topp p),
      steps = (if steps p < 0 then 0 else steps p),
      rng_seed = (if rng_seed p \<le> 0 then now else rng_seed p),
      device = (if device p < 0 then cudaCpuDeviceId else device p),
      mode = mode p\<rparr>"

text \<open>The statement after \<^verbatim>\<open>build_transformer\<close>, on \<^verbatim>\<open>steps\<close> and \<^verbatim>\<open>max_seq_len\<close>.\<close>

definition clamp_steps :: "int \<Rightarrow> int \<Rightarrow> int" where
  "clamp_steps n max_len = (if n = 0 \<or> n > max_len then max_len else n)"

text \<open>
  \<^verbatim>\<open>Sampler\<close> and \<^verbatim>\<open>build_sampler\<close>. The fields carry the prefix \<open>sampler_\<close> where the
  name is also that of a local of \<^verbatim>\<open>main\<close> or of a field of \<^verbatim>\<open>Config\<close>. The buffer
  \<^verbatim>\<open>probindex\<close> is allocated and never read; it is left out.
\<close>

record Sampler =
  sampler_vocab_size :: int
  sampler_temperature :: real
  sampler_topp :: real
  rng_state :: "64 word"

definition build_sampler :: "int \<Rightarrow> real \<Rightarrow> real \<Rightarrow> 64 word \<Rightarrow> Sampler" where
  "build_sampler vsize temp p seed =
     \<lparr>sampler_vocab_size = vsize, sampler_temperature = temp, sampler_topp = p, rng_state = seed\<rparr>"

text \<open>
  \<^verbatim>\<open>main\<close> from the parameter block to the comment \<^verbatim>\<open>// run!\<close>: the result is the values
  of the locals \<^verbatim>\<open>transformer\<close>, \<^verbatim>\<open>steps\<close>, \<^verbatim>\<open>sampler\<close> and \<^verbatim>\<open>device\<close> at that point.
  \<open>transformer0\<close> is the uninitialised local.
\<close>

definition run_setup ::
  "allocator \<Rightarrow> 64 word \<Rightarrow> byte list option \<Rightarrow> Transformer \<Rightarrow> Params
   \<Rightarrow> error + Transformer \<times> int \<times> Sampler \<times> int" where
  "run_setup fresh now checkpoint transformer0 params =
     (let p = validate_params now params
      in case build_transformer fresh checkpoint transformer0 of
           Inl e \<Rightarrow> Inl e
         | Inr transformer \<Rightarrow>
             Inr (transformer,
                  clamp_steps (steps p) (max_seq_len (config transformer)),
                  build_sampler (vocab_size (config transformer)) (temperature p) (topp p)
                    (rng_seed p),
                  device p))"

text \<open>
  \<^verbatim>\<open>main\<close> after option parsing. The tokenizer is the result of \<^verbatim>\<open>build_tokenizer\<close>, taken
  to succeed. An unknown mode ends in \<^verbatim>\<open>help_msg\<close>, which exits.
\<close>

definition main ::
  "reduce_launch \<Rightarrow> allocator \<Rightarrow> 64 word \<Rightarrow> byte list option \<Rightarrow> Tokenizer \<Rightarrow> string option
   \<Rightarrow> Transformer \<Rightarrow> Params \<Rightarrow> error + int" where
  "main reduce fresh now checkpoint tokenizer prompt transformer0 params =
     (case run_setup fresh now checkpoint transformer0 params of
        Inl e \<Rightarrow> Inl e
      | Inr (transformer, n, sampler, dev) \<Rightarrow>
          if mode params = ''generate''
          then (case generate reduce transformer tokenizer prompt n dev of
                  Inl e \<Rightarrow> Inl e
                | Inr pos \<Rightarrow> Inr 0)
          else Inl (Exit EXIT_FAILURE))"


section \<open>Notions of the specification\<close>

text \<open>
  The words of the specification about one pass of the merge loop, over a token sequence:
  the id that the concatenated pieces of the pair at \<open>i\<close> resolve to, the vocabulary score
  of that id, and whether the pair resolves to a known piece.
\<close>

definition pair_id :: "Tokenizer \<Rightarrow> int list \<Rightarrow> nat \<Rightarrow> int" where
  "pair_id t tokens i =
     str_lookup (vocab t ! nat (tokens ! i) @ vocab t ! nat (tokens ! (i + 1))) t"

definition pair_score :: "Tokenizer \<Rightarrow> int list \<Rightarrow> nat \<Rightarrow> real" where
  "pair_score t tokens i = vocab_scores t ! nat (pair_id t tokens i)"

definition resolves :: "Tokenizer \<Rightarrow> int list \<Rightarrow> nat \<Rightarrow> bool" where
  "resolves t tokens i \<longleftrightarrow> i + 1 < length tokens \<and> pair_id t tokens i \<noteq> -1"

text \<open>Every token is an index of the vocabulary.\<close>

definition valid_tokens :: "Tokenizer \<Rightarrow> int list \<Rightarrow> bool" where
  "valid_tokens t tokens \<longleftrightarrow> list_all (\<lambda>tok. 0 \<le> tok \<and> tok < int (length (vocab t))) tokens"

text \<open>A pair the merge loop can take: it resolves, with a score above the initial \<^verbatim>\<open>best_score\<close>.\<close>

definition mergeable :: "Tokenizer \<Rightarrow> int list \<Rightarrow> nat \<Rightarrow> bool" where
  "mergeable t tokens i \<longleftrightarrow> resolves t tokens i \<and> pair_score t tokens i > - 10000000000"

text \<open>
  The weight layout of the specification, in floats: token-embedding table, per-layer
  attention-norm weights, per-layer \<^verbatim>\<open>wq/wk/wv/wo\<close>, per-layer ffn-norm weights, per-layer
  \<^verbatim>\<open>w1/w2/w3\<close>, final-norm weights, the skipped rotary-table slots, and the classifier
  projection unless it is tied. The region sizes are those of the comments of
  \<^verbatim>\<open>TransformerWeights\<close>. The byte length the specification asks of a checkpoint is the
  header plus four bytes for each float.
\<close>

definition layout_floats :: "Config \<Rightarrow> bool \<Rightarrow> int" where
  "layout_floats c tied =
     (let head_size = dim_cfg c div n_heads c;
          kv_dim = dim_cfg c * n_kv_heads c div n_heads c
      in vocab_size c * dim_cfg c
         + n_layers c * dim_cfg c
         + n_layers c * dim_cfg c * dim_cfg c
         + 2 * (n_layers c * dim_cfg c * kv_dim)
         + n_layers c * dim_cfg c * dim_cfg c
         + n_layers c * dim_cfg c
         + 3 * (n_layers c * hidden_dim c * dim_cfg c)
         + dim_cfg c
         + max_seq_len c * head_size
         + (if tied then 0 else vocab_size c * dim_cfg c))"

definition layout_bytes :: "Config \<Rightarrow> bool \<Rightarrow> int" where
  "layout_bytes c tied = 28 + 4 * layout_floats c tied"

text \<open>
  The number of floats between the token-embedding table and the place behind the two
  skipped rotary tables, as \<^verbatim>\<open>memory_map_weights\<close> counts them: the sum of the numbers it
  adds to \<^verbatim>\<open>ptr\<close>, each as the program computes it.
\<close>

definition floats_before_wcls :: "Config \<Rightarrow> int" where
  "floats_before_wcls c =
     (let head_size = trunc_div (dim_cfg c) (n_heads c);
          nl = ull (n_layers c)
      in c_int (vocab_size c * dim_cfg c)
         + ull (nl * dim_cfg c)
         + ull (nl * dim_cfg c * c_int (n_heads c * head_size))
         + ull (nl * dim_cfg c * c_int (n_kv_heads c * head_size))
         + ull (nl * dim_cfg c * c_int (n_kv_heads c * head_size))
         + ull (nl * c_int (n_heads c * head_size) * dim_cfg c)
         + ull (nl * dim_cfg c)
         + ull (nl * dim_cfg c * hidden_dim c)
         + ull (nl * hidden_dim c * dim_cfg c)
         + ull (nl * dim_cfg c * hidden_dim c)
         + dim_cfg c
         + trunc_div (c_int (max_seq_len c * head_size)) 2
         + trunc_div (c_int (max_seq_len c * head_size)) 2)"

text \<open>
  The invariant of the inner loop of the merge loop, between the locals \<open>best\<close> before the
  scan of \<open>ts\<close> from index \<open>i\<close> and the locals \<open>b\<close> after it: the score has not gone down and
  is at least that of every resolving pair of \<open>ts\<close>; and either the locals are untouched, or
  they record a resolving pair \<open>j\<close> of \<open>ts\<close> that beats the old score and every resolving
  pair to its left.
\<close>

definition best_inv :: "Tokenizer \<Rightarrow> int list \<Rightarrow> int \<Rightarrow> Best \<Rightarrow> Best \<Rightarrow> bool" where
  "best_inv t ts i best b \<longleftrightarrow>
     best_score best \<le> best_score b \<and>
     (\<forall>k. resolves t ts k \<longrightarrow> pair_score t ts k \<le> best_score b) \<and>
     (b = best \<or>
      (\<exists>j. resolves t ts j \<and>
           b = \<lparr>best_score = pair_score t ts j, best_id = pair_id t ts j, best_idx = i + int j\<rparr> \<and>
           best_score best < pair_score t ts j \<and>
           (\<forall>k<j. resolves t ts k \<longrightarrow> pair_score t ts k < pair_score t ts j)))"

section \<open>Example inputs\<close>

text \<open>
  A vocabulary of eight pieces: the three special pieces, the space, three letters and one
  merge. The pieces of the example vocabularies are distinct, so the field
  \<open>sorted_vocab_hit\<close> has no bearing on them.
\<close>

definition tok_ab :: Tokenizer where
  "tok_ab = \<lparr>vocab = [''<unk>'', ''<s>'', ''</s>'', '' '', ''a'', ''b'', ''ab'', ''c''],
             vocab_scores = [0, 0, 0, 0, 0, 0, 1, 0], sorted_vocab_hit = (\<lambda>str. -1),
             max_token_length = 5\<rparr>"

text \<open>The same vocabulary without its last piece, the merged piece scored \<^verbatim>\<open>-2e10\<close>.\<close>

definition tok_low :: Tokenizer where
  "tok_low = \<lparr>vocab = [''<unk>'', ''<s>'', ''</s>'', '' '', ''a'', ''b'', ''ab''],
              vocab_scores = [0, 0, 0, 0, 0, 0, - 20000000000],
              sorted_vocab_hit = (\<lambda>str. -1), max_token_length = 5\<rparr>"

text \<open>A vocabulary that has no one-space piece.\<close>

definition tok_nospace :: Tokenizer where
  "tok_nospace = \<lparr>vocab = [''<unk>'', ''<s>'', ''</s>'', ''a''],
                  vocab_scores = [0, 0, 0, 0], sorted_vocab_hit = (\<lambda>str. -1),
                  max_token_length = 5\<rparr>"

text \<open>
  The checkpoint of the specification's end-to-end scenario: \<open>dim = 4\<close>, \<open>hidden_dim = 8\<close>,
  \<open>n_layers = 1\<close>, \<open>n_heads = 2\<close>, \<open>n_kv_heads = 1\<close>, \<open>vocab_size = 8\<close>, \<open>max_seq_len = 4\<close>.
  Its header, the same header with the vocabulary size stored as \<open>-8\<close>, and the whole file:
  the header and 196 floats.
\<close>

definition tiny_header :: "byte list" where
  "tiny_header = [4,0,0,0, 8,0,0,0, 1,0,0,0, 2,0,0,0, 1,0,0,0, 8,0,0,0, 4,0,0,0]"

definition tiny_header_untied :: "byte list" where
  "tiny_header_untied =
     [4,0,0,0, 8,0,0,0, 1,0,0,0, 2,0,0,0, 1,0,0,0, 248,255,255,255, 4,0,0,0]"

definition tiny_config :: Config where
  "tiny_config = \<lparr>dim_cfg = 4, hidden_dim = 8, n_layers = 1, n_heads = 2, n_kv_heads = 1,
     vocab_size = 8, max_seq_len = 4\<rparr>"

definition tiny_blob :: "byte list" where
  "tiny_blob = tiny_header @ replicate 784 0"

text \<open>
  A header with \<open>n_layers = -1\<close>, the vocabulary size stored as \<open>-8\<close> and
  \<open>max_seq_len = 58\<close>, its configuration as stored, and the weight pointers that
  \<^verbatim>\<open>memory_map_weights\<close> computes for it.
\<close>

definition wrap_header :: "byte list" where
  "wrap_header =
     [4,0,0,0, 8,0,0,0, 255,255,255,255, 2,0,0,0, 1,0,0,0, 248,255,255,255, 58,0,0,0]"

definition wrap_config :: Config where
  "wrap_config = \<lparr>dim_cfg = 4, hidden_dim = 8, n_layers = -1, n_heads = 2, n_kv_heads = 1,
     vocab_size = -8, max_seq_len = 58\<rparr>"

definition wrap_weights :: TransformerWeights where
  "wrap_weights = \<lparr>token_embedding_table = 7, rms_att_weight = 39, rms_ffn_weight = -13, wq = 35,
       wk = 19, wv = 11, wo = 3, w1 = -17, w2 = -49, w3 = -81, rms_final_weight = -113, wcls = 7\<rparr>"

text \<open>
  A header whose fields are positive but for the sign of the vocabulary size: \<open>dim = 1\<close>,
  \<open>hidden_dim = 1431655763\<close>, \<open>n_layers = 2 ^ 30\<close>, \<open>n_heads = n_kv_heads = 1\<close>, the
  vocabulary size stored as \<open>-1073741821\<close>, \<open>max_seq_len = 2\<close>.
\<close>

definition huge_header :: "byte list" where
  "huge_header = [1,0,0,0, 83,85,85,85, 0,0,0,64, 1,0,0,0, 1,0,0,0, 3,0,0,192, 2,0,0,0]"

definition huge_config :: Config where
  "huge_config = \<lparr>dim_cfg = 1, hidden_dim = 1431655763, n_layers = 1073741824, n_heads = 1,
     n_kv_heads = 1, vocab_size = - 1073741821, max_seq_len = 2\<rparr>"

text \<open>The example header with the vocabulary size stored as \<^verbatim>\<open>INT_MIN\<close>.\<close>

definition int_min_header :: "byte list" where
  "int_min_header = [4,0,0,0, 8,0,0,0, 1,0,0,0, 2,0,0,0, 1,0,0,0, 0,0,0,128, 4,0,0,0]"

text \<open>An allocator whose memory holds ones, and a device on which a launch changes nothing.\<close>

definition ones :: allocator where
  "ones k i = 1"

definition no_reduce :: reduce_launch where
  "no_reduce grid x partial_o = partial_o"

text \<open>The local \<^verbatim>\<open>Transformer transformer;\<close> of \<^verbatim>\<open>main\<close> before \<^verbatim>\<open>build_transformer\<close>.\<close>

definition transformer0 :: Transformer where
  "transformer0 = \<lparr>config = \<lparr>dim_cfg = 0, hidden_dim = 0, n_layers = 0, n_heads = 0, n_kv_heads = 0,
     vocab_size = 0, max_seq_len = 0\<rparr>,
     weights = \<lparr>token_embedding_table = 0, rms_att_weight = 0, rms_ffn_weight = 0, wq = 0, wk = 0,
       wv = 0, wo = 0, w1 = 0, w2 = 0, w3 = 0, rms_final_weight = 0, wcls = 0\<rparr>,
     state = \<lparr>s_x = [], s_partial_sum = [], s_xb = [], s_xb2 = [], s_hb = [], s_hb2 = [], s_q = [],
       s_att = [], s_logits = [], s_key_cache = [], s_value_cache = []\<rparr>,
     data = [], file_size = 0\<rparr>"

text \<open>What \<^verbatim>\<open>build_transformer\<close> makes of the whole file with that allocator.\<close>

definition tiny_weights :: "float_ptr \<Rightarrow> TransformerWeights" where
  "tiny_weights cls = \<lparr>token_embedding_table = 7, rms_att_weight = 39, rms_ffn_weight = 91, wq = 43,
       wk = 59, wv = 67, wo = 75, w1 = 95, w2 = 127, w3 = 159, rms_final_weight = 191, wcls = cls\<rparr>"

definition tiny_state :: RunState where
  "tiny_state = \<lparr>s_x = replicate 4 1, s_partial_sum = replicate 4 1, s_xb = replicate 4 1,
       s_xb2 = replicate 4 1, s_hb = replicate 8 1, s_hb2 = replicate 8 1, s_q = replicate 4 1,
       s_att = replicate 8 1, s_logits = replicate 8 1, s_key_cache = replicate 8 1,
       s_value_cache = replicate 8 1\<rparr>"

definition tiny_transformer :: Transformer where
  "tiny_transformer = \<lparr>config = tiny_config, weights = tiny_weights 7, state = tiny_state,
     data = replicate 203 1, file_size = 812\<rparr>"

text \<open>The example transformer after a call of \<^verbatim>\<open>forward\<close> on the host path.\<close>

definition tiny_after :: Transformer where
  "tiny_after = tiny_transformer\<lparr>state := tiny_state\<lparr>s_x := [1, 1, 1, 1],
     s_xb := [1 / sqrt (100001 / 100000), 1 / sqrt (100001 / 100000),
              1 / sqrt (100001 / 100000), 1 / sqrt (100001 / 100000)]\<rparr>\<rparr>"

text \<open>Run parameters in range, and run parameters out of range.\<close>

definition tiny_params :: Params where
  "tiny_params = \<lparr>temperature = 0, topp = 9 / 10, steps = 4, rng_seed = 1, device = -1,
     mode = ''generate''\<rparr>"

definition wild_params :: Params where
  "wild_params = \<lparr>temperature = -1, topp = 2, steps = -3, rng_seed = 0, device = -7,
     mode = ''generate''\<rparr>"

section \<open>Properties of the tokenizer\<close>

subsection \<open>One pass of the merge loop\<close>

lemma ids_of_range:
  "k \<in> set (ids_of s ps i) \<Longrightarrow> i \<le> k \<and> k < i + int (length ps) \<and> ps ! nat (k - i) = s"
proof (induction s ps i rule: ids_of.induct)
  case (1 str i)
  then show ?case by simp
next
  case (2 str p ps i)
  show ?case
  proof (cases "k = i \<and> p = str")
    case True
    then show ?thesis by simp
  next
    case False
    with "2.prems" have "k \<in> set (ids_of str ps (i + 1))" by (auto split: if_splits)
    with "2.IH" have r: "i + 1 \<le> k \<and> k < i + 1 + int (length ps) \<and> ps ! nat (k - (i + 1)) = str"
      by (auto split: if_splits)
    then have "nat (k - i) = Suc (nat (k - (i + 1)))" by linarith
    with r show ?thesis by simp
  qed
qed

lemma str_lookup_member:
  "str_lookup s t \<noteq> -1 \<Longrightarrow> str_lookup s t \<in> set (ids_of s (vocab t) 0)"
  by (auto simp: str_lookup_def split: list.splits if_splits)

lemma str_lookup_range:
  "str_lookup s t \<noteq> -1 \<Longrightarrow> 0 \<le> str_lookup s t \<and> str_lookup s t < int (length (vocab t))"
  using ids_of_range [of "str_lookup s t" s "vocab t" 0] str_lookup_member [of s t] by simp

text \<open>
  The lookup finds a piece exactly when the vocabulary has it, and the id it returns is the
  id of a piece equal to the key.
\<close>

lemma ids_of_empty: "ids_of s ps i = [] \<longleftrightarrow> s \<notin> set ps"
  by (induction s ps i rule: ids_of.induct) auto

lemma str_lookup_found: "str_lookup s t \<noteq> -1 \<longleftrightarrow> s \<in> set (vocab t)"
proof
  assume "str_lookup s t \<noteq> -1"
  then have "ids_of s (vocab t) 0 \<noteq> []" by (auto simp: str_lookup_def)
  then show "s \<in> set (vocab t)" by (simp add: ids_of_empty)
next
  assume "s \<in> set (vocab t)"
  then obtain i rest where ids: "ids_of s (vocab t) 0 = i # rest"
    by (cases "ids_of s (vocab t) 0") (simp_all add: ids_of_empty)
  then have "str_lookup s t \<in> set (i # rest)" by (simp add: str_lookup_def)
  with ids have "str_lookup s t \<in> set (ids_of s (vocab t) 0)" by simp
  from ids_of_range [OF this] show "str_lookup s t \<noteq> -1" by simp
qed

lemma str_lookup_piece: "str_lookup s t \<noteq> -1 \<Longrightarrow> vocab t ! nat (str_lookup s t) = s"
  using ids_of_range [of "str_lookup s t" s "vocab t" 0] str_lookup_member [of s t] by simp

lemma pair_id_Suc: "pair_id t (a # ts) (Suc k) = pair_id t ts k"
  by (simp add: pair_id_def)

lemma pair_score_Suc: "pair_score t (a # ts) (Suc k) = pair_score t ts k"
  by (simp add: pair_score_def pair_id_Suc)

lemma resolves_Suc: "resolves t (a # ts) (Suc k) = resolves t ts k"
  by (simp add: resolves_def pair_id_Suc)

lemma best_pair_step:
  assumes "0 \<le> a" "a < int (length (vocab t))" "0 \<le> b" "b < int (length (vocab t))"
    and "length (vocab_scores t) = length (vocab t)"
  shows "best_pair t (a # b # rest) i best =
           best_pair t (b # rest) (i + 1)
             (if pair_id t (a # b # rest) 0 \<noteq> -1 \<and> pair_score t (a # b # rest) 0 > best_score best
              then \<lparr>best_score = pair_score t (a # b # rest) 0, best_id = pair_id t (a # b # rest) 0,
                     best_idx = i\<rparr>
              else best)"
  using assms str_lookup_range [of "vocab t ! nat a @ vocab t ! nat b" t]
  by (simp add: vocab_at_def score_at_def pair_id_def pair_score_def Let_def)


lemma best_pair_inv:
  assumes "length (vocab_scores t) = length (vocab t)"
  shows "valid_tokens t ts \<Longrightarrow> \<exists>b. best_pair t ts i best = Inr b \<and> best_inv t ts i best b"
proof (induction ts arbitrary: i best)
  case Nil
  then show ?case by (simp add: best_inv_def resolves_def)
next
  case (Cons a ts)
  show ?case
  proof (cases ts)
    case Nil
    then show ?thesis by (simp add: best_inv_def resolves_def)
  next
    case (Cons b rest)
    let ?ts = "a # b # rest"
    let ?acc = "pair_id t ?ts 0 \<noteq> -1 \<and> pair_score t ?ts 0 > best_score best"
    let ?best' = "if ?acc then \<lparr>best_score = pair_score t ?ts 0, best_id = pair_id t ?ts 0,
                     best_idx = i\<rparr> else best"
    from Cons.prems Cons have va: "0 \<le> a" "a < int (length (vocab t))"
      and vb: "0 \<le> b" "b < int (length (vocab t))" and vt: "valid_tokens t ts"
      by (simp_all add: valid_tokens_def)
    have step: "best_pair t ?ts i best = best_pair t (b # rest) (i + 1) ?best'"
      by (rule best_pair_step [OF va vb assms])
    from Cons.IH [OF vt, of "i + 1" ?best'] Cons
    obtain r where r: "best_pair t (b # rest) (i + 1) ?best' = Inr r"
      and inv: "best_inv t (b # rest) (i + 1) ?best' r" by auto
    have r0: "resolves t ?ts 0 \<longleftrightarrow> pair_id t ?ts 0 \<noteq> -1" by (simp add: resolves_def)
    have le: "best_score best \<le> best_score ?best'" by simp
    have c1: "best_score best \<le> best_score r"
      using inv le unfolding best_inv_def by linarith
    have s0: "resolves t ?ts 0 \<Longrightarrow> pair_score t ?ts 0 \<le> best_score ?best'"
      by (simp add: r0)
    have c2: "resolves t ?ts k \<longrightarrow> pair_score t ?ts k \<le> best_score r" for k
    proof (cases k)
      case 0
      with s0 inv show ?thesis unfolding best_inv_def by force
    next
      case (Suc k')
      with inv show ?thesis unfolding best_inv_def
        by (simp add: resolves_Suc pair_score_Suc)
    qed
    have c3: "r = best \<or>
      (\<exists>j. resolves t ?ts j \<and>
           r = \<lparr>best_score = pair_score t ?ts j, best_id = pair_id t ?ts j, best_idx = i + int j\<rparr> \<and>
           best_score best < pair_score t ?ts j \<and>
           (\<forall>k<j. resolves t ?ts k \<longrightarrow> pair_score t ?ts k < pair_score t ?ts j))"
    proof -
      from inv consider (same) "r = ?best'"
        | (later) j where "resolves t (b # rest) j"
            "r = \<lparr>best_score = pair_score t (b # rest) j, best_id = pair_id t (b # rest) j,
                  best_idx = i + 1 + int j\<rparr>"
            "best_score ?best' < pair_score t (b # rest) j"
            "\<forall>k<j. resolves t (b # rest) k \<longrightarrow> pair_score t (b # rest) k < pair_score t (b # rest) j"
        unfolding best_inv_def by blast
      then show ?thesis
      proof cases
        case same
        show ?thesis
        proof (cases ?acc)
          case True
          with same have "resolves t ?ts 0 \<and>
             r = \<lparr>best_score = pair_score t ?ts 0, best_id = pair_id t ?ts 0, best_idx = i + int 0\<rparr> \<and>
             best_score best < pair_score t ?ts 0 \<and>
             (\<forall>k<0. resolves t ?ts k \<longrightarrow> pair_score t ?ts k < pair_score t ?ts 0)"
            by (simp add: r0)
          then show ?thesis by blast
        next
          case False
          with same show ?thesis by simp
        qed
      next
        case later
        have lm: "resolves t ?ts k \<longrightarrow> pair_score t ?ts k < pair_score t ?ts (Suc j)" if "k < Suc j" for k
        proof (cases k)
          case 0
          with s0 later(3) show ?thesis by (auto simp: pair_score_Suc)
        next
          case (Suc k')
          with that later(4) show ?thesis by (simp add: resolves_Suc pair_score_Suc)
        qed
        from later le have "resolves t ?ts (Suc j) \<and>
             r = \<lparr>best_score = pair_score t ?ts (Suc j), best_id = pair_id t ?ts (Suc j),
                   best_idx = i + int (Suc j)\<rparr> \<and>
             best_score best < pair_score t ?ts (Suc j)"
          by (simp add: resolves_Suc pair_score_Suc pair_id_Suc)
        with lm show ?thesis by blast
      qed
    qed
    from c1 c2 c3 have "best_inv t ?ts i best r" unfolding best_inv_def by blast
    with step r Cons show ?thesis by simp
  qed
qed


lemma merge_at_take_drop:
  "j + 1 < length tokens \<Longrightarrow> merge_at tokens j new_id = take j tokens @ new_id # drop (j + 2) tokens"
  by (simp add: merge_at_def Let_def take_Suc_conv_app_nth)

lemma merge_loop_count: "snd (merge_loop t tokens n) \<le> n + (length tokens - 1)"
proof (induction t tokens n rule: merge_loop.induct)
  case (1 t tokens n)
  show ?case
  proof (cases "merge_step t tokens")
    case (Inl e)
    then show ?thesis by (simp add: merge_loop.simps [of t tokens n])
  next
    case (Inr r)
    show ?thesis
    proof (cases r)
      case None
      with Inr show ?thesis by (simp add: merge_loop.simps [of t tokens n])
    next
      case (Some tokens')
      from Inr Some have len: "length tokens' + 1 = length tokens"
        by (intro merge_step_length) simp
      from "1.IH" [OF Inr Some] have "snd (merge_loop t tokens' (n + 1)) \<le> n + 1 + (length tokens' - 1)" .
      moreover have "merge_loop t tokens n = merge_loop t tokens' (n + 1)"
        using Inr Some by (simp add: merge_loop.simps [of t tokens n])
      moreover have "tokens' \<noteq> []"
        using Inr Some by (intro merge_step_nonempty) simp
      ultimately show ?thesis using len by (cases tokens') simp_all
    qed
  qed
qed

text \<open>
  C6. For every text the merge loop of \<^verbatim>\<open>encode\<close> ends (\<open>merge_loop\<close> is a total function, by
  its termination proof), after at most as many merges as there are tokens before the loop
  (in fact one fewer, so that with the last pass, which merges nothing, the passes of a
  non-empty sequence are at most its tokens), and every pass that merges makes the sequence
  exactly one token shorter.
\<close>

theorem merge_loop_bounded:
  "snd (merge_loop t (pre_merge_tokens t text bos) 0) \<le> length (pre_merge_tokens t text bos) \<and>
   snd (merge_loop t (pre_merge_tokens t text bos) 0) \<le> length (pre_merge_tokens t text bos) - 1 \<and>
   (pre_merge_tokens t text bos \<noteq> [] \<longrightarrow>
      snd (merge_loop t (pre_merge_tokens t text bos) 0) + 1 \<le> length (pre_merge_tokens t text bos)) \<and>
   (\<forall>tokens tokens'. merge_step t tokens = Inr (Some tokens') \<longrightarrow>
      length tokens' + 1 = length tokens)"
proof -
  have "snd (merge_loop t (pre_merge_tokens t text bos) 0) \<le> length (pre_merge_tokens t text bos) - 1"
    using merge_loop_count [of t "pre_merge_tokens t text bos" 0] by simp
  moreover have "length tokens' + 1 = length tokens"
    if "merge_step t tokens = Inr (Some tokens')" for tokens tokens'
    using that by (rule merge_step_length)
  ultimately show ?thesis by (cases "pre_merge_tokens t text bos") simp_all
qed


text \<open>
  Witness for C6: the text \<open>ab\<close> with BOS gives four tokens, one merge, and a sequence one
  token shorter.
\<close>

theorem merge_loop_bounded_witness:
  "pre_merge_tokens tok_ab ''ab'' 1 = [1, 3, 4, 5] \<and>
   merge_step tok_ab [1, 3, 4, 5] = Inr (Some [1, 3, 6]) \<and>
   merge_loop tok_ab [1, 3, 4, 5] 0 = (Inr [1, 3, 6], 1) \<and>
   snd (merge_loop tok_ab (pre_merge_tokens tok_ab ''ab'' 1) 0) + 1
     \<le> length (pre_merge_tokens tok_ab ''ab'' 1)"
  using merge_loop_bounded [of tok_ab "''ab''" 1]
  by (simp add: pre_merge_tokens_def tok_ab_def str_lookup_def is_continuation_def
      merge_loop.simps merge_step_def vocab_at_def score_at_def best_init_def merge_at_def Let_def)

text \<open>
  C5, as the code has it. On a sequence of valid token ids (and a score for every piece),
  for every vocabulary, with or without equal pieces, and whichever of several equal pieces
  the lookup finds: if some adjacent pair resolves to a piece whose score is above
  \<^verbatim>\<open>-1e10\<close>, the pass merges a pair \<open>j\<close> of that kind whose score is the highest among all
  resolving pairs, strictly higher than that of every resolving pair to its left; the pair
  is replaced by the resolved id and the rest moves one place to the left. If no pair
  resolves with a score above \<^verbatim>\<open>-1e10\<close>, the loop stops.
\<close>

theorem merge_step_best:
  assumes "valid_tokens t tokens" and "length (vocab_scores t) = length (vocab t)"
  shows "if \<exists>i. mergeable t tokens i
         then \<exists>j. mergeable t tokens j \<and>
                (\<forall>k. resolves t tokens k \<longrightarrow> pair_score t tokens k \<le> pair_score t tokens j) \<and>
                (\<forall>k<j. resolves t tokens k \<longrightarrow> pair_score t tokens k < pair_score t tokens j) \<and>
                merge_step t tokens =
                  Inr (Some (take j tokens @ pair_id t tokens j # drop (j + 2) tokens))
         else merge_step t tokens = Inr None"
proof -
  from best_pair_inv [OF assms(2) assms(1), of 0 best_init]
  obtain b where b: "best_pair t tokens 0 best_init = Inr b"
    and inv: "best_inv t tokens 0 best_init b" by blast
  show ?thesis
  proof (cases "\<exists>i. mergeable t tokens i")
    case True
    then obtain i where i: "resolves t tokens i" "pair_score t tokens i > - 10000000000"
      by (auto simp: mergeable_def)
    from inv i have "best_score b > - 10000000000"
      unfolding best_inv_def by fastforce
    then have "b \<noteq> best_init" by (auto simp: best_init_def)
    with inv obtain j where j: "resolves t tokens j"
      "b = \<lparr>best_score = pair_score t tokens j, best_id = pair_id t tokens j, best_idx = int j\<rparr>"
      "best_score best_init < pair_score t tokens j"
      "\<forall>k<j. resolves t tokens k \<longrightarrow> pair_score t tokens k < pair_score t tokens j"
      unfolding best_inv_def by auto
    from j(1) have lt: "j + 1 < length tokens" by (simp add: resolves_def)
    from b j(2) have "merge_step t tokens = Inr (Some (merge_at tokens j (pair_id t tokens j)))"
      by (simp add: merge_step_def)
    with lt have ms: "merge_step t tokens =
        Inr (Some (take j tokens @ pair_id t tokens j # drop (j + 2) tokens))"
      by (simp add: merge_at_take_drop)
    from j(1,3) have mj: "mergeable t tokens j" by (simp add: mergeable_def best_init_def)
    from inv j(2) have mx: "\<forall>k. resolves t tokens k \<longrightarrow> pair_score t tokens k \<le> pair_score t tokens j"
      unfolding best_inv_def by simp
    from mj mx j(4) ms True show ?thesis by auto
  next
    case False
    have "b = best_init"
    proof (rule ccontr)
      assume "b \<noteq> best_init"
      with inv obtain j where "resolves t tokens j" "best_score best_init < pair_score t tokens j"
        unfolding best_inv_def by auto
      then have "mergeable t tokens j" by (simp add: mergeable_def best_init_def)
      with False show False by blast
    qed
    with b have "merge_step t tokens = Inr None" by (simp add: merge_step_def best_init_def)
    with False show ?thesis by simp
  qed
qed

text \<open>
  Witness for C5: the text \<open>ab\<close> with BOS enters the merge loop as \<open><s>\<close>, space, \<open>a\<close>,
  \<open>b\<close>, and the pair at index 2 is merged into \<open>ab\<close>.
\<close>

theorem merge_step_best_witness:
  "pre_merge_tokens tok_ab ''ab'' 1 = [1, 3, 4, 5] \<and>
   valid_tokens tok_ab [1, 3, 4, 5] \<and> mergeable tok_ab [1, 3, 4, 5] 2 \<and>
   (\<exists>j. mergeable tok_ab [1, 3, 4, 5] j \<and>
        merge_step tok_ab [1, 3, 4, 5] =
          Inr (Some (take j [1, 3, 4, 5] @ pair_id tok_ab [1, 3, 4, 5] j # drop (j + 2) [1, 3, 4, 5]))) \<and>
   merge_step tok_ab [1, 3, 4, 5] = Inr (Some [1, 3, 6])"
proof -
  have p: "pre_merge_tokens tok_ab ''ab'' 1 = [1, 3, 4, 5]"
    by (simp add: pre_merge_tokens_def tok_ab_def str_lookup_def is_continuation_def Let_def)
  have v: "valid_tokens tok_ab [1, 3, 4, 5]"
    by (simp add: valid_tokens_def tok_ab_def)
  have l: "length (vocab_scores tok_ab) = length (vocab tok_ab)"
    by (simp add: tok_ab_def)
  have m: "mergeable tok_ab [1, 3, 4, 5] 2"
    by (simp add: mergeable_def resolves_def pair_id_def pair_score_def tok_ab_def str_lookup_def)
  then have ex: "\<exists>i. mergeable tok_ab [1, 3, 4, 5] i" by blast
  have ms: "merge_step tok_ab [1, 3, 4, 5] = Inr (Some [1, 3, 6])"
    by (simp add: merge_step_def tok_ab_def str_lookup_def vocab_at_def score_at_def
        best_init_def merge_at_def Let_def)
  from merge_step_best [OF v l] ex
  have "\<exists>j. mergeable tok_ab [1, 3, 4, 5] j \<and>
        merge_step tok_ab [1, 3, 4, 5] =
          Inr (Some (take j [1, 3, 4, 5] @ pair_id tok_ab [1, 3, 4, 5] j # drop (j + 2) [1, 3, 4, 5]))"
    by (simp only: if_True) blast
  with p v m ms show ?thesis by blast
qed

text \<open>
  Counterexample to C5 as stated: with the vocabulary whose piece \<open>ab\<close> (id 6) is scored
  \<^verbatim>\<open>-2e10\<close>, the text \<open>ab\<close> with BOS enters the merge loop as \<open><s>\<close>, space, \<open>a\<close>, \<open>b\<close>.
  The pair \<open>a\<close>, \<open>b\<close> at index 2 resolves to \<open>ab\<close>; no pair is merged, the loop stops in
  its first pass although a pair resolves, and \<^verbatim>\<open>encode\<close> returns the four tokens.
\<close>

theorem merge_stops_while_pair_resolves:
  "pre_merge_tokens tok_low ''ab'' 1 = [1, 3, 4, 5] \<and>
   resolves tok_low [1, 3, 4, 5] 2 \<and> pair_id tok_low [1, 3, 4, 5] 2 = 6 \<and>
   merge_step tok_low [1, 3, 4, 5] = Inr None \<and>
   encode tok_low (Some ''ab'') 1 0 = Inr [1, 3, 4, 5]"
proof -
  have p: "pre_merge_tokens tok_low ''ab'' 1 = [1, 3, 4, 5]"
    by (simp add: pre_merge_tokens_def tok_low_def str_lookup_def is_continuation_def Let_def)
  have r: "resolves tok_low [1, 3, 4, 5] 2 \<and> pair_id tok_low [1, 3, 4, 5] 2 = 6"
    by (simp add: resolves_def pair_id_def tok_low_def str_lookup_def)
  have m: "merge_step tok_low [1, 3, 4, 5] = Inr None"
    by (simp add: merge_step_def tok_low_def str_lookup_def vocab_at_def score_at_def
        best_init_def Let_def)
  have v: "vocab tok_low \<noteq> []" by (simp add: tok_low_def)
  from m have "merge_loop tok_low [1, 3, 4, 5] 0 = (Inr [1, 3, 4, 5], 0)"
    by (simp add: merge_loop.simps [of tok_low "[1, 3, 4, 5]" 0])
  with p v have "encode tok_low (Some ''ab'') 1 0 = Inr [1, 3, 4, 5]"
    by (simp add: encode_def)
  with p r m show ?thesis by simp
qed

subsection \<open>The dummy prefix\<close>

lemma utf8_loop_appends:
  "\<exists>r. utf8_loop t input buf toks = toks @ r \<and> (input \<noteq> [] \<longrightarrow> r \<noteq> [])"
proof (induction input arbitrary: buf toks)
  case Nil
  then show ?case by simp
next
  case (Cons c cs)
  let ?buf = "(if \<not> is_continuation c then [] else buf) @ [c]"
  show ?case
  proof (cases "(case cs of [] \<Rightarrow> False | d # _ \<Rightarrow> is_continuation d) \<and> length ?buf < 4")
    case True
    then have ne: "cs \<noteq> []" by (auto split: list.splits)
    from Cons.IH [of ?buf toks] obtain r where
      "utf8_loop t cs ?buf toks = toks @ r" "cs \<noteq> [] \<longrightarrow> r \<noteq> []" by blast
    with True ne show ?thesis by (auto simp: Let_def)
  next
    case False
    show ?thesis
    proof (cases "str_lookup ?buf t \<noteq> -1")
      case True
      from Cons.IH [of "[]" "toks @ [str_lookup ?buf t]"] obtain r where
        "utf8_loop t cs [] (toks @ [str_lookup ?buf t]) = (toks @ [str_lookup ?buf t]) @ r" by blast
      with False True show ?thesis by (auto simp: Let_def)
    next
      case nf: False
      let ?bytes = "map (\<lambda>b. int (of_char b) + 3) ?buf"
      from Cons.IH [of "[]" "toks @ ?bytes"] obtain r where
        "utf8_loop t cs [] (toks @ ?bytes) = (toks @ ?bytes) @ r" by blast
      with False nf show ?thesis by (auto simp: Let_def)
    qed
  qed
qed

lemma best_pair_invalid:
  "\<not> valid_tokens t ts \<Longrightarrow> 2 \<le> length ts \<Longrightarrow> best_pair t ts i best = Inl OutOfBounds"
proof (induction ts arbitrary: i best)
  case Nil
  then show ?case by simp
next
  case (Cons a ts)
  then obtain b rest where ts: "ts = b # rest" by (cases ts) auto
  show ?case
  proof (cases "vocab_at t a = None \<or> vocab_at t b = None")
    case True
    then show ?thesis by (auto simp: ts split: option.splits)
  next
    case False
    then have va: "0 \<le> a \<and> a < int (length (vocab t))" and vb: "0 \<le> b \<and> b < int (length (vocab t))"
      by (auto simp: vocab_at_def split: if_splits)
    with Cons.prems(1) have nv: "\<not> valid_tokens t ts" and "rest \<noteq> []"
      by (auto simp: valid_tokens_def ts)
    then have len: "2 \<le> length ts" by (cases rest) (auto simp: ts)
    from Cons.IH [OF nv len] have "best_pair t (b # rest) j bb = Inl OutOfBounds" for j bb
      by (simp add: ts)
    with False show ?thesis by (auto simp: ts Let_def split: option.splits)
  qed
qed

text \<open>
  When the one-space piece is missing from a vocabulary (that has a piece), every non-empty
  text puts \<open>-1\<close> among the tokens and \<^verbatim>\<open>encode\<close> reads outside the vocabulary.
\<close>

lemma encode_dummy_prefix_missing:
  assumes "str_lookup '' '' t = -1" and "input \<noteq> []" and "vocab t \<noteq> []"
  shows "-1 \<in> set (pre_merge_tokens t input bos) \<and> encode t (Some input) bos eos = Inl OutOfBounds"
proof -
  let ?t0 = "if bos \<noteq> 0 then [1] else [] :: int list"
  from utf8_loop_appends [of t input "[]" "?t0 @ [-1]"] assms(2) obtain r where
    r: "utf8_loop t input [] (?t0 @ [-1]) = (?t0 @ [-1]) @ r" "r \<noteq> []" by blast
  with assms have pm: "pre_merge_tokens t input bos = ?t0 @ [-1] @ r"
    by (simp add: pre_merge_tokens_def Let_def)
  then have m: "-1 \<in> set (pre_merge_tokens t input bos)" by simp
  from pm r(2) have len: "2 \<le> length (pre_merge_tokens t input bos)"
    by (cases r) auto
  from m have "\<not> valid_tokens t (pre_merge_tokens t input bos)"
    unfolding valid_tokens_def list_all_iff by force
  from best_pair_invalid [OF this len]
  have "merge_step t (pre_merge_tokens t input bos) = Inl OutOfBounds"
    by (simp add: merge_step_def)
  then have "merge_loop t (pre_merge_tokens t input bos) 0 = (Inl OutOfBounds, 0)"
    by (simp add: merge_loop.simps [of t "pre_merge_tokens t input bos" 0])
  with m assms(3) show ?thesis by (simp add: encode_def)
qed

text \<open>
  C7 fails on the code. With a vocabulary that has no one-space piece and the text \<open>a\<close>, the
  failed lookup's \<open>-1\<close> is stored as the first token, and the first pass of the merge loop
  reads \<^verbatim>\<open>t->vocab[-1]\<close>.
\<close>

theorem encode_without_space_piece:
  "str_lookup '' '' tok_nospace = -1 \<and>
   pre_merge_tokens tok_nospace ''a'' 0 = [-1, 3] \<and>
   encode tok_nospace (Some ''a'') 0 0 = Inl OutOfBounds"
  by (simp add: encode_def pre_merge_tokens_def tok_nospace_def str_lookup_def is_continuation_def
      merge_loop.simps merge_step_def vocab_at_def score_at_def best_init_def merge_at_def Let_def)

section \<open>Properties of the checkpoint loader\<close>

subsection \<open>The example checkpoint\<close>

lemma read_config_tiny_blob: "read_config tiny_blob = Some tiny_config"
  by (simp add: read_config_def tiny_blob_def tiny_header_def tiny_config_def int32_le_def)

lemma read_config_tiny_header: "read_config tiny_header = Some tiny_config"
  by (simp add: read_config_def tiny_header_def tiny_config_def int32_le_def)

lemma map_const_upt: "map (\<lambda>i. c) [0..<n] = replicate n c"
  by (simp add: map_replicate_const)

lemma head_size_tiny: "c_div (dim_cfg tiny_config) (n_heads tiny_config) = Some 2"
  by (simp add: tiny_config_def c_div_def trunc_div_def)

lemma memory_map_weights_tiny_tied: "memory_map_weights tiny_config 7 1 = Inr (tiny_weights 7)"
  unfolding memory_map_weights_def head_size_tiny option.case Let_def
  by (simp add: tiny_config_def trunc_div_def ull_def c_int_def tiny_weights_def)

lemma alloc_run_state_tiny: "alloc_run_state ones tiny_config = Inr tiny_state"
  by (simp add: tiny_config_def alloc_run_state_def c_div_def trunc_div_def c_int_def
      alloc_floats_def ones_def [abs_def] map_const_upt tiny_state_def)

lemma c_abs_tiny: "c_abs (vocab_size tiny_config) = 8" "tiny_config\<lparr>vocab_size := 8\<rparr> = tiny_config"
  by (simp_all add: c_abs_def tiny_config_def)

lemma read_checkpoint_tiny_blob:
  "read_checkpoint ones (Some tiny_blob) transformer0 =
     Inr (tiny_transformer\<lparr>state := state transformer0\<rparr>)"
proof -
  have "length tiny_blob = 812" by (simp add: tiny_blob_def tiny_header_def)
  moreover have "0 < vocab_size tiny_config" by (simp add: tiny_config_def)
  ultimately show ?thesis
    unfolding read_checkpoint_def option.case read_config_tiny_blob Let_def
    by (simp add: c_abs_tiny memory_map_weights_tiny_tied ones_def [abs_def] map_const_upt
        tiny_transformer_def transformer0_def)
qed

lemma read_checkpoint_tiny_header:
  "read_checkpoint ones (Some tiny_header) transformer0 =
     Inr (tiny_transformer\<lparr>state := state transformer0, data := replicate 7 1, file_size := 28\<rparr>)"
proof -
  have "length tiny_header = 28" by (simp add: tiny_header_def)
  moreover have "0 < vocab_size tiny_config" by (simp add: tiny_config_def)
  ultimately show ?thesis
    unfolding read_checkpoint_def option.case read_config_tiny_header Let_def
    by (simp add: c_abs_tiny memory_map_weights_tiny_tied ones_def [abs_def] map_const_upt
        tiny_transformer_def transformer0_def)
qed

lemma build_transformer_tiny_blob:
  "build_transformer ones (Some tiny_blob) transformer0 = Inr tiny_transformer"
  unfolding build_transformer_def read_checkpoint_tiny_blob
  by (simp add: tiny_transformer_def alloc_run_state_tiny)

lemma build_transformer_tiny_header:
  "build_transformer ones (Some tiny_header) transformer0 =
     Inr (tiny_transformer\<lparr>data := replicate 7 1, file_size := 28\<rparr>)"
  unfolding build_transformer_def read_checkpoint_tiny_header
  by (simp add: tiny_transformer_def alloc_run_state_tiny)

lemma read_config_tiny_header_untied:
  "read_config tiny_header_untied = Some (tiny_config\<lparr>vocab_size := -8\<rparr>)"
  by (simp add: read_config_def tiny_header_untied_def tiny_config_def int32_le_def)

lemma memory_map_weights_tiny_untied: "memory_map_weights tiny_config 7 0 = Inr (tiny_weights 203)"
  unfolding memory_map_weights_def head_size_tiny option.case Let_def
  by (simp add: tiny_config_def trunc_div_def ull_def c_int_def tiny_weights_def)

lemma read_checkpoint_tiny_header_untied:
  "read_checkpoint ones (Some tiny_header_untied) transformer0 =
     Inr (transformer0\<lparr>config := tiny_config, weights := tiny_weights 203,
            data := replicate 7 1, file_size := 28\<rparr>)"
proof -
  have "length tiny_header_untied = 28" by (simp add: tiny_header_untied_def)
  moreover have "\<not> 0 < vocab_size (tiny_config\<lparr>vocab_size := -8\<rparr>)"
    "(tiny_config\<lparr>vocab_size := -8\<rparr>)\<lparr>vocab_size := c_abs (vocab_size (tiny_config\<lparr>vocab_size := -8\<rparr>))\<rparr>
       = tiny_config"
    by (simp_all add: tiny_config_def c_abs_def)
  ultimately show ?thesis
    unfolding read_checkpoint_def option.case read_config_tiny_header_untied Let_def
    by (simp add: memory_map_weights_tiny_untied ones_def [abs_def] map_const_upt)
qed

subsection \<open>What the loader checks\<close>

lemma memory_map_weights_error:
  "memory_map_weights c ptr sh = Inl e \<Longrightarrow> e = ArithmeticTrap"
  by (auto simp: memory_map_weights_def Let_def split: option.splits)

lemma read_config_take:
  "28 \<le> length blob \<Longrightarrow> read_config (take 28 blob) = read_config blob"
  by (simp add: read_config_def drop_take min_def)

text \<open>
  C4, as the code has it. The loader ends in \<^verbatim>\<open>exit(EXIT_FAILURE)\<close> when the checkpoint
  cannot be opened, and for a checkpoint that opens exactly when the header is truncated
  (fewer than 28 bytes). It never compares the length of the blob with the weight layout:
  for a blob with a complete header the outcome is that of its first 28 bytes, and the
  length only sets \<^verbatim>\<open>file_size\<close> and the size of the buffer.
\<close>

theorem read_checkpoint_header_only:
  "read_checkpoint fresh None tr = Inl (Exit EXIT_FAILURE) \<and>
   (read_checkpoint fresh (Some blob) tr = Inl (Exit EXIT_FAILURE) \<longleftrightarrow> length blob < 28) \<and>
   (28 \<le> length blob \<longrightarrow>
      read_checkpoint fresh (Some blob) tr =
        map_sum id (\<lambda>r. r\<lparr>data := map (fresh 0) [0..<(length blob + 1) div 4],
                          file_size := length blob\<rparr>)
          (read_checkpoint fresh (Some (take 28 blob)) tr))"
proof -
  have a: "read_checkpoint fresh None tr = Inl (Exit EXIT_FAILURE)"
    by (simp add: read_checkpoint_def)
  have b: "read_checkpoint fresh (Some blob) tr = Inl (Exit EXIT_FAILURE)" if "length blob < 28"
    using that by (simp add: read_checkpoint_def read_config_def)
  have c: "read_checkpoint fresh (Some blob) tr \<noteq> Inl (Exit EXIT_FAILURE)" if "\<not> length blob < 28"
    using that
    by (auto simp: read_checkpoint_def read_config_def Let_def split: sum.splits
        dest: memory_map_weights_error)
  have d: "read_checkpoint fresh (Some blob) tr =
        map_sum id (\<lambda>r. r\<lparr>data := map (fresh 0) [0..<(length blob + 1) div 4],
                          file_size := length blob\<rparr>)
          (read_checkpoint fresh (Some (take 28 blob)) tr)" if "28 \<le> length blob"
    using that read_config_take [OF that]
    by (auto simp: read_checkpoint_def Let_def split: option.splits sum.splits)
  from a b c d show ?thesis by blast
qed

text \<open>
  Witness for C4: the example file cut to 27 bytes is refused, and the whole file of 812
  bytes is loaded as its header alone is, up to the buffer and \<^verbatim>\<open>file_size\<close>.
\<close>

theorem read_checkpoint_header_only_witness:
  "read_checkpoint ones (Some (take 27 tiny_blob)) transformer0 = Inl (Exit EXIT_FAILURE) \<and>
   length tiny_blob = 812 \<and> take 28 tiny_blob = tiny_header \<and>
   read_checkpoint ones (Some tiny_blob) transformer0 =
     map_sum id (\<lambda>r. r\<lparr>data := map (ones 0) [0..<(length tiny_blob + 1) div 4],
                       file_size := length tiny_blob\<rparr>)
       (read_checkpoint ones (Some tiny_header) transformer0)"
proof -
  have l: "length tiny_blob = 812" "take 28 tiny_blob = tiny_header"
    by (simp_all add: tiny_blob_def tiny_header_def)
  have "length (take 27 tiny_blob) < 28" by simp
  with read_checkpoint_header_only [of ones transformer0 "take 27 tiny_blob"]
  have a: "read_checkpoint ones (Some (take 27 tiny_blob)) transformer0 = Inl (Exit EXIT_FAILURE)"
    by blast
  from read_checkpoint_header_only [of ones transformer0 tiny_blob] l
  have "read_checkpoint ones (Some tiny_blob) transformer0 =
     map_sum id (\<lambda>r. r\<lparr>data := map (ones 0) [0..<(length tiny_blob + 1) div 4],
                       file_size := length tiny_blob\<rparr>)
       (read_checkpoint ones (Some tiny_header) transformer0)"
    by simp
  with a l show ?thesis by simp
qed

text \<open>
  Counterexample to C4 as stated: the layout of the example configuration asks for 812
  bytes; a blob that is only the 28 bytes of the header is loaded, and the run state is
  allocated, without an error.
\<close>

theorem header_only_blob_is_loaded:
  "length tiny_header = 28 \<and> layout_bytes tiny_config True = 812 \<and>
   read_config tiny_header = Some tiny_config \<and>
   build_transformer ones (Some tiny_header) transformer0 =
     Inr (tiny_transformer\<lparr>data := replicate 7 1, file_size := 28\<rparr>)"
proof -
  have "length tiny_header = 28" by (simp add: tiny_header_def)
  moreover have "layout_bytes tiny_config True = 812"
    unfolding layout_bytes_def layout_floats_def Let_def by (simp add: tiny_config_def)
  ultimately show ?thesis
    by (simp add: read_config_tiny_header build_transformer_tiny_header)
qed

subsection \<open>Vocabulary size and classifier weights\<close>

lemma read_config_wrap_header: "read_config wrap_header = Some wrap_config"
  by (simp add: read_config_def wrap_header_def wrap_config_def int32_le_def)

lemma memory_map_weights_wrap:
  "memory_map_weights (wrap_config\<lparr>vocab_size := 8\<rparr>) 7 0 = Inr wrap_weights"
proof -
  have "c_div (dim_cfg (wrap_config\<lparr>vocab_size := 8\<rparr>)) (n_heads (wrap_config\<lparr>vocab_size := 8\<rparr>))
          = Some 2"
    by (simp add: wrap_config_def c_div_def trunc_div_def)
  then show ?thesis
    unfolding memory_map_weights_def option.case Let_def
    by (simp add: wrap_config_def trunc_div_def ull_def c_int_def wrap_weights_def)
qed

lemma read_checkpoint_wrap_header:
  "read_checkpoint ones (Some wrap_header) transformer0 =
     Inr (transformer0\<lparr>config := wrap_config\<lparr>vocab_size := 8\<rparr>, weights := wrap_weights,
            data := replicate 7 1, file_size := 28\<rparr>)"
proof -
  have "length wrap_header = 28" by (simp add: wrap_header_def)
  moreover have "\<not> 0 < vocab_size wrap_config" "c_abs (vocab_size wrap_config) = 8"
    by (simp_all add: wrap_config_def c_abs_def)
  ultimately show ?thesis
    unfolding read_checkpoint_def option.case read_config_wrap_header Let_def
    by (simp add: memory_map_weights_wrap ones_def [abs_def] map_const_upt)
qed

lemma float_ptr_add_eq_self:
  "p + word_of_int k = (p :: float_ptr) \<longleftrightarrow> 2 ^ 62 dvd k"
proof -
  have "p + word_of_int k = p \<longleftrightarrow> (word_of_int k :: float_ptr) = 0" by simp
  also have "\<dots> \<longleftrightarrow> 2 ^ 62 dvd k" by (simp add: word_of_int_eq_0_iff)
  finally show ?thesis .
qed

text \<open>
  C8, as the code has it. For every header that the loader accepts: the vocabulary size of
  the configuration is the absolute value of the stored field, except that \<^verbatim>\<open>INT_MIN\<close>, whose
  absolute value is no \<^verbatim>\<open>int\<close>, stays \<^verbatim>\<open>INT_MIN\<close>; when the stored field is positive
  \<^verbatim>\<open>wcls\<close> is the token-embedding table; otherwise \<^verbatim>\<open>wcls\<close> points behind the two skipped
  rotary tables that follow the \<^verbatim>\<open>dim\<close> final-norm weights, and that place is the
  token-embedding table again exactly when the sizes of the regions in between, as the
  loader computes them, add up to a multiple of \<open>2 ^ 62\<close> floats (\<open>2 ^ 64\<close> bytes).
\<close>

theorem read_checkpoint_vocab_wcls:
  assumes "read_config blob = Some hdr"
    and "read_checkpoint fresh (Some blob) tr0 = Inr tr"
  shows "vocab_size (config tr)
           = (if vocab_size hdr = - (2 ^ 31) then - (2 ^ 31) else \<bar>vocab_size hdr\<bar>) \<and>
         (0 < vocab_size hdr \<longrightarrow> wcls (weights tr) = token_embedding_table (weights tr)) \<and>
         (\<not> 0 < vocab_size hdr \<longrightarrow>
            wcls (weights tr) =
              rms_final_weight (weights tr) + word_of_int (dim_cfg hdr)
              + word_of_int
                  (trunc_div (c_int (max_seq_len hdr * trunc_div (dim_cfg hdr) (n_heads hdr))) 2)
              + word_of_int
                  (trunc_div (c_int (max_seq_len hdr * trunc_div (dim_cfg hdr) (n_heads hdr))) 2) \<and>
            (wcls (weights tr) = token_embedding_table (weights tr)
               \<longleftrightarrow> 2 ^ 62 dvd floats_before_wcls (config tr)))"
proof -
  let ?c = "hdr\<lparr>vocab_size := c_abs (vocab_size hdr)\<rparr>"
  let ?sh = "if 0 < vocab_size hdr then 1 else 0 :: int"
  from assms obtain w where w: "memory_map_weights ?c 7 ?sh = Inr w"
    and tr: "tr = tr0\<lparr>config := ?c, weights := w, data := map (fresh 0) [0..<(length blob + 1) div 4],
                      file_size := length blob\<rparr>"
    unfolding read_checkpoint_def Let_def by (auto split: sum.splits)
  from w obtain hs where hs: "c_div (dim_cfg hdr) (n_heads hdr) = Some hs"
    unfolding memory_map_weights_def by (auto split: option.splits)
  then have hs': "hs = trunc_div (dim_cfg hdr) (n_heads hdr)"
    by (auto simp: c_div_def split: if_splits)
  from w hs have wc: "wcls w = (if ?sh \<noteq> 0 then token_embedding_table w
      else rms_final_weight w + word_of_int (dim_cfg hdr)
           + word_of_int (trunc_div (c_int (max_seq_len hdr * hs)) 2)
           + word_of_int (trunc_div (c_int (max_seq_len hdr * hs)) 2))"
    unfolding memory_map_weights_def Let_def by auto
  from w hs hs' have off: "\<not> 0 < vocab_size hdr \<Longrightarrow>
      wcls w = token_embedding_table w + word_of_int (floats_before_wcls ?c)"
    unfolding memory_map_weights_def floats_before_wcls_def Let_def by auto
  have v: "vocab_size (config tr)
             = (if vocab_size hdr = - (2 ^ 31) then - (2 ^ 31) else \<bar>vocab_size hdr\<bar>)"
    using tr by (simp add: c_abs_def)
  have al: "wcls (weights tr) = token_embedding_table (weights tr)
              \<longleftrightarrow> 2 ^ 62 dvd floats_before_wcls (config tr)" if "\<not> 0 < vocab_size hdr"
  proof -
    from tr have c: "config tr = ?c" and ww: "weights tr = w" by simp_all
    show ?thesis
      unfolding c ww off [OF that] by (rule float_ptr_add_eq_self)
  qed
  from wc hs' tr v al show ?thesis by simp
qed

text \<open>
  Witness for C8: the example header, stored size 8, gives size 8 and \<^verbatim>\<open>wcls\<close> on the
  embedding table at float 7; the header with stored size \<open>-8\<close> gives size 8 and \<^verbatim>\<open>wcls\<close>
  at float 203, behind the final-norm weights at 191 and the two rotary tables of 4 floats,
  196 floats after the embedding table.
\<close>

theorem read_checkpoint_vocab_wcls_witness:
  "read_checkpoint ones (Some tiny_blob) transformer0
     = Inr (tiny_transformer\<lparr>state := state transformer0\<rparr>) \<and>
   vocab_size (config (tiny_transformer\<lparr>state := state transformer0\<rparr>)) = \<bar>8\<bar> \<and>
   wcls (weights (tiny_transformer\<lparr>state := state transformer0\<rparr>)) = 7 \<and>
   token_embedding_table (weights (tiny_transformer\<lparr>state := state transformer0\<rparr>)) = 7 \<and>
   read_checkpoint ones (Some tiny_header_untied) transformer0
     = Inr (transformer0\<lparr>config := tiny_config, weights := tiny_weights 203,
              data := replicate 7 1, file_size := 28\<rparr>) \<and>
   vocab_size tiny_config = \<bar>- 8\<bar> \<and>
   wcls (tiny_weights 203) = rms_final_weight (tiny_weights 203) + 4 + 4 + 4 \<and>
   floats_before_wcls tiny_config = 196 \<and>
   wcls (tiny_weights 203) \<noteq> token_embedding_table (tiny_weights 203)"
proof -
  have v: "vocab_size tiny_config = 8" "dim_cfg tiny_config = 4"
    "trunc_div (c_int (max_seq_len tiny_config
       * trunc_div (dim_cfg tiny_config) (n_heads tiny_config))) 2 = 4"
    "n_heads tiny_config = 2" "max_seq_len tiny_config = 4"
    by (simp_all add: tiny_config_def trunc_div_def c_int_def)
  have f: "floats_before_wcls tiny_config = 196"
    unfolding floats_before_wcls_def Let_def
    by (simp add: tiny_config_def trunc_div_def c_int_def ull_def)
  from read_checkpoint_vocab_wcls [OF read_config_tiny_blob read_checkpoint_tiny_blob] v
  have a: "vocab_size (config (tiny_transformer\<lparr>state := state transformer0\<rparr>)) = \<bar>8\<bar>"
    "wcls (weights (tiny_transformer\<lparr>state := state transformer0\<rparr>))
       = token_embedding_table (weights (tiny_transformer\<lparr>state := state transformer0\<rparr>))"
    by simp_all
  have e: "token_embedding_table (weights (tiny_transformer\<lparr>state := state transformer0\<rparr>)) = 7"
    by (simp add: tiny_transformer_def tiny_weights_def)
  note u = read_checkpoint_vocab_wcls
    [OF read_config_tiny_header_untied read_checkpoint_tiny_header_untied]
  let ?hdr = "tiny_config\<lparr>vocab_size := - 8\<rparr>"
  let ?tr = "transformer0\<lparr>config := tiny_config, weights := tiny_weights 203,
               data := replicate 7 1, file_size := 28\<rparr>"
  have nz: "\<not> 0 < vocab_size ?hdr" by simp
  from u v have b1: "vocab_size tiny_config = \<bar>- 8\<bar>" by simp
  from u nz have "wcls (weights ?tr) =
      rms_final_weight (weights ?tr) + word_of_int (dim_cfg ?hdr)
      + word_of_int (trunc_div (c_int (max_seq_len ?hdr
          * trunc_div (dim_cfg ?hdr) (n_heads ?hdr))) 2)
      + word_of_int (trunc_div (c_int (max_seq_len ?hdr
          * trunc_div (dim_cfg ?hdr) (n_heads ?hdr))) 2)"
    by blast
  moreover have "trunc_div (c_int (4 * trunc_div 4 2)) 2 = 4"
    by (simp add: trunc_div_def c_int_def)
  ultimately have b2: "wcls (tiny_weights 203) = rms_final_weight (tiny_weights 203) + 4 + 4 + 4"
    by (simp add: v)
  from u nz have "wcls (weights ?tr) = token_embedding_table (weights ?tr)
      \<longleftrightarrow> 2 ^ 62 dvd floats_before_wcls (config ?tr)"
    by blast
  then have "wcls (tiny_weights 203) = token_embedding_table (tiny_weights 203)
      \<longleftrightarrow> (2 :: int) ^ 62 dvd 196"
    unfolding f [symmetric] by simp
  then have b3: "wcls (tiny_weights 203) \<noteq> token_embedding_table (tiny_weights 203)"
    by simp
  note b = b1 b2 b3
  from a b e f show ?thesis
    by (simp add: read_checkpoint_tiny_blob read_checkpoint_tiny_header_untied)
qed

text \<open>
  Counterexample to C8 as stated. The header \<open>4, 8, -1, 2, 1, -8, 58\<close> stores a negative
  vocabulary size, and the loader returns with \<^verbatim>\<open>wcls\<close> on the token-embedding table, at
  float 7: \<^verbatim>\<open>n_layers\<close> is \<open>2 ^ 64 - 1\<close> as an \<^verbatim>\<open>unsigned long long\<close>, every per-layer
  size is \<open>2 ^ 64\<close> minus a small number, and the pointer moves back from float 39 to
  float \<open>-113\<close>, from where the \<open>4 + 58 + 58\<close> floats of the final-norm weights and of the
  rotary tables lead to float 7. And for the header that stores \<^verbatim>\<open>INT_MIN\<close> the vocabulary
  size of the configuration is \<^verbatim>\<open>INT_MIN\<close>, not an absolute value.
\<close>

theorem untied_header_aliases:
  "read_config wrap_header = Some wrap_config \<and> vocab_size wrap_config = - 8 \<and>
   read_checkpoint ones (Some wrap_header) transformer0 =
     Inr (transformer0\<lparr>config := wrap_config\<lparr>vocab_size := 8\<rparr>, weights := wrap_weights,
            data := replicate 7 1, file_size := 28\<rparr>) \<and>
   wcls wrap_weights = 7 \<and> token_embedding_table wrap_weights = 7 \<and>
   vocab_size (the (read_config int_min_header)) = - 2147483648 \<and>
   vocab_size (config (projr (read_checkpoint ones (Some int_min_header) transformer0)))
     = - 2147483648"
proof -
  have a: "vocab_size wrap_config = - 8" "wcls wrap_weights = 7"
    "token_embedding_table wrap_weights = 7"
    by (simp_all add: wrap_config_def wrap_weights_def)
  have r: "read_config int_min_header = Some (tiny_config\<lparr>vocab_size := - 2147483648\<rparr>)"
    by (simp add: read_config_def int_min_header_def tiny_config_def int32_le_def)
  have h: "c_div (dim_cfg tiny_config) (n_heads tiny_config) = Some 2"
    by (rule head_size_tiny)
  have "length int_min_header = 28" by (simp add: int_min_header_def)
  then have "vocab_size (config (projr (read_checkpoint ones (Some int_min_header) transformer0)))
     = - 2147483648"
    unfolding read_checkpoint_def option.case r Let_def memory_map_weights_def
    by (simp add: h c_abs_def)
  with a r show ?thesis
    by (simp add: read_config_wrap_header read_checkpoint_wrap_header)
qed

subsection \<open>Where the untied classifier weights are a region of their own\<close>

lemma c_int_id: "- (2 ^ 31) \<le> v \<Longrightarrow> v < 2 ^ 31 \<Longrightarrow> c_int v = v"
  by (simp add: c_int_def)

lemma ull_id: "0 \<le> v \<Longrightarrow> v < 2 ^ 64 \<Longrightarrow> ull v = v"
  by (simp add: ull_def)

lemma trunc_div_pos: "0 \<le> a \<Longrightarrow> 0 < b \<Longrightarrow> trunc_div a b = a div b"
  by (simp add: trunc_div_def sgn_if)

lemma int32_le_range: "- (2 ^ 31) \<le> int32_le bs \<and> int32_le bs < 2 ^ 31"
  unfolding int32_le_def
  using sint_ge [where 'a = 32] sint_lt [where 'a = 32] by simp

lemma read_config_range: "read_config blob = Some hdr \<Longrightarrow> dim_cfg hdr < 2 ^ 31"
  using int32_le_range [of "take 4 blob"] by (auto simp: read_config_def split: if_splits)

text \<open>
  For a configuration as the specification asks for it (\<^verbatim>\<open>dim\<close> and \<^verbatim>\<open>n_heads\<close> positive,
  \<^verbatim>\<open>n_heads\<close> dividing \<^verbatim>\<open>dim\<close>, no negative field) whose counts are \<^verbatim>\<open>int\<close>s and whose
  layout takes fewer than \<open>2 ^ 62\<close> floats, no size wraps: the floats that
  \<^verbatim>\<open>memory_map_weights\<close> steps over are those of the specification's layout, but for the
  odd float of the rotary tables that the halving drops.
\<close>

lemma floats_before_wcls_plain:
  assumes d: "0 < dim_cfg c" "dim_cfg c < 2 ^ 31" and h: "0 < n_heads c" "n_heads c dvd dim_cfg c"
    and nn: "0 \<le> n_layers c" "0 \<le> hidden_dim c" "0 \<le> n_kv_heads c" "0 \<le> max_seq_len c"
      "0 \<le> vocab_size c"
    and fits: "vocab_size c * dim_cfg c < 2 ^ 31"
      "n_kv_heads c * (dim_cfg c div n_heads c) < 2 ^ 31"
      "max_seq_len c * (dim_cfg c div n_heads c) < 2 ^ 31"
    and total: "layout_floats c True < 2 ^ 62"
  shows "0 < floats_before_wcls c \<and> floats_before_wcls c \<le> layout_floats c True"
proof -
  define D L F K V S hs where "D = dim_cfg c" and "L = n_layers c" and "F = hidden_dim c"
    and "K = n_kv_heads c" and "V = vocab_size c" and "S = max_seq_len c"
    and "hs = dim_cfg c div n_heads c"
  note defs = D_def L_def F_def K_def V_def S_def hs_def
  from d h have hs0: "0 \<le> hs" and hd: "n_heads c * hs = D"
    by (simp_all add: defs pos_imp_zdiv_nonneg_iff)
  from h have kv: "D * K div n_heads c = K * hs"
    unfolding defs by (metis div_mult_swap mult.commute)
  have td: "trunc_div (dim_cfg c) (n_heads c) = hs"
    using d h by (simp add: trunc_div_pos defs)
  have n0: "0 \<le> V * D" "0 \<le> L * D" "0 \<le> L * D * D" "0 \<le> L * D * (K * hs)"
    "0 \<le> L * D * F" "0 \<le> S * hs" "1 \<le> D"
    using d nn hs0 by (simp_all add: defs)
  have lay: "layout_floats c True =
      V * D + L * D + L * D * D + 2 * (L * D * (K * hs)) + L * D * D + L * D
      + 3 * (L * D * F) + D + S * hs"
    unfolding layout_floats_def Let_def using kv by (simp add: defs algebra_simps)
  from n0 nn have "L \<le> L * D" unfolding defs
    by (metis mult.right_neutral mult_left_mono)
  have p: "(2 :: int) ^ 62 < 2 ^ 64" by simp
  from \<open>L \<le> L * D\<close> lay total n0 p have L64: "L < 2 ^ 64" by linarith
  from nn have nl: "ull (n_layers c) = L" using L64 by (simp add: ull_id defs)
  have b: "L * D < 2 ^ 64" "L * D * D < 2 ^ 64" "L * D * (K * hs) < 2 ^ 64" "L * D * F < 2 ^ 64"
    using lay total n0 p by linarith+
  have fits': "V * D < 2 ^ 31" "K * hs < 2 ^ 31" "S * hs < 2 ^ 31" "D < 2 ^ 31"
    using fits d by (simp_all add: defs)
  have k0: "0 \<le> K * hs" using nn hs0 by (simp add: defs)
  have ci: "c_int (V * D) = V * D" "c_int D = D" "c_int (K * hs) = K * hs" "c_int (S * hs) = S * hs"
  proof -
    show "c_int (V * D) = V * D" using n0(1) fits'(1) by (intro c_int_id) simp_all
    show "c_int D = D" using n0(7) fits'(4) by (intro c_int_id) simp_all
    show "c_int (K * hs) = K * hs" using k0 fits'(2) by (intro c_int_id) simp_all
    show "c_int (S * hs) = S * hs" using n0(6) fits'(3) by (intro c_int_id) simp_all
  qed
  have u: "ull (L * D) = L * D" "ull (L * D * D) = L * D * D"
    "ull (L * D * (K * hs)) = L * D * (K * hs)" "ull (L * D * F) = L * D * F"
    using b n0 by (simp_all add: ull_id del: power_numeral)
  have "L * F * D = L * D * F" by simp
  then have u5: "ull (L * F * D) = L * D * F" using u(4) by (simp only:)
  have rot: "trunc_div (S * hs) 2 = S * hs div 2"
    using n0 by (simp add: trunc_div_pos)
  have code: "floats_before_wcls c =
      V * D + L * D + L * D * D + 2 * (L * D * (K * hs)) + L * D * D + L * D
      + 3 * (L * D * F) + D + 2 * (S * hs div 2)"
    unfolding floats_before_wcls_def Let_def td nl
    unfolding defs [symmetric] hd ci u u5 rot
    by simp
  have "0 \<le> S * hs div 2" "2 * (S * hs div 2) \<le> S * hs"
    using n0 by (simp_all add: pos_imp_zdiv_nonneg_iff)
  with code lay n0 show ?thesis by linarith
qed

lemma read_checkpoint_untied_offset:
  assumes "read_checkpoint fresh (Some blob) tr0 = Inr tr" and "read_config blob = Some hdr"
    and "\<not> 0 < vocab_size hdr"
  shows "config tr = hdr\<lparr>vocab_size := c_abs (vocab_size hdr)\<rparr>"
    and "wcls (weights tr)
           = token_embedding_table (weights tr) + word_of_int (floats_before_wcls (config tr))"
proof -
  let ?c = "hdr\<lparr>vocab_size := c_abs (vocab_size hdr)\<rparr>"
  from assms obtain w where w: "memory_map_weights ?c 7 0 = Inr w"
    and tr: "tr = tr0\<lparr>config := ?c, weights := w, data := map (fresh 0) [0..<(length blob + 1) div 4],
                      file_size := length blob\<rparr>"
    unfolding read_checkpoint_def Let_def by (auto split: sum.splits)
  from w obtain hs where hs: "c_div (dim_cfg hdr) (n_heads hdr) = Some hs"
    unfolding memory_map_weights_def by (auto split: option.splits)
  then have hs': "hs = trunc_div (dim_cfg hdr) (n_heads hdr)"
    by (auto simp: c_div_def split: if_splits)
  from w hs hs' have "wcls w = token_embedding_table w + word_of_int (floats_before_wcls ?c)"
    unfolding memory_map_weights_def floats_before_wcls_def Let_def by auto
  with tr show "config tr = ?c"
    and "wcls (weights tr)
           = token_embedding_table (weights tr) + word_of_int (floats_before_wcls (config tr))"
    by simp_all
qed

text \<open>
  So for such a configuration, stored with a vocabulary size that is not positive, the
  classifier weights are not the token-embedding table: they begin where the
  specification's layout puts them, or one float before when the rotary tables have an odd
  number of floats.
\<close>

lemma untied_wcls_apart:
  assumes rc: "read_config blob = Some hdr"
    and rd: "read_checkpoint fresh (Some blob) tr0 = Inr tr"
    and v: "vocab_size hdr \<le> 0" "- (2 ^ 31) < vocab_size hdr"
    and d: "0 < dim_cfg hdr" and h: "0 < n_heads hdr" "n_heads hdr dvd dim_cfg hdr"
    and nn: "0 \<le> n_layers hdr" "0 \<le> hidden_dim hdr" "0 \<le> n_kv_heads hdr" "0 \<le> max_seq_len hdr"
    and fits: "\<bar>vocab_size hdr\<bar> * dim_cfg hdr < 2 ^ 31"
      "n_kv_heads hdr * (dim_cfg hdr div n_heads hdr) < 2 ^ 31"
      "max_seq_len hdr * (dim_cfg hdr div n_heads hdr) < 2 ^ 31"
    and total: "layout_floats (config tr) True < 2 ^ 62"
  shows "wcls (weights tr) \<noteq> token_embedding_table (weights tr)"
proof -
  from v have nv: "\<not> 0 < vocab_size hdr" by simp
  note o = read_checkpoint_untied_offset [OF rd rc nv]
  from v have a: "c_abs (vocab_size hdr) = \<bar>vocab_size hdr\<bar>" by (simp add: c_abs_def)
  have "0 < floats_before_wcls (config tr)
          \<and> floats_before_wcls (config tr) \<le> layout_floats (config tr) True"
    using d h nn fits total read_config_range [OF rc] unfolding o(1) a
    by (intro floats_before_wcls_plain) simp_all
  with total have "\<not> 2 ^ 62 dvd floats_before_wcls (config tr)"
    by (auto dest: zdvd_imp_le)
  then show ?thesis unfolding o(2) by (simp add: word_of_int_eq_0_iff)
qed

text \<open>
  The bound on the layout is needed. The header with \<open>dim = 1\<close>, \<open>hidden_dim = 1431655763\<close>,
  \<open>n_layers = 2 ^ 30\<close> and the vocabulary size stored as \<open>-1073741821\<close> has no field that
  is not positive, but for that sign, and no count that overflows; its regions take
  \<open>2 ^ 62\<close> floats, \<open>2 ^ 64\<close> bytes, and \<^verbatim>\<open>wcls\<close> is the token-embedding table.
\<close>

lemma positive_header_aliases:
  "read_config huge_header = Some huge_config \<and>
   floats_before_wcls (huge_config\<lparr>vocab_size := 1073741821\<rparr>) = 2 ^ 62 \<and>
   wcls (weights (projr (read_checkpoint ones (Some huge_header) transformer0)))
     = token_embedding_table (weights (projr (read_checkpoint ones (Some huge_header) transformer0)))"
proof -
  have r: "read_config huge_header = Some huge_config"
    by (simp add: read_config_def huge_header_def huge_config_def int32_le_def)
  have f: "floats_before_wcls (huge_config\<lparr>vocab_size := 1073741821\<rparr>) = 2 ^ 62"
    unfolding floats_before_wcls_def Let_def
    by (simp add: huge_config_def trunc_div_def c_int_def ull_def)
  have h: "c_div (dim_cfg huge_config) (n_heads huge_config) = Some 1"
    by (simp add: huge_config_def c_div_def trunc_div_def)
  have "c_abs (vocab_size huge_config) = 1073741821" "\<not> 0 < vocab_size huge_config"
    by (simp_all add: huge_config_def c_abs_def)
  then obtain tr where
    tr: "read_checkpoint ones (Some huge_header) transformer0 = Inr tr"
    unfolding read_checkpoint_def option.case r Let_def memory_map_weights_def
    by (simp add: h)
  have nv: "\<not> 0 < vocab_size huge_config" by (simp add: huge_config_def)
  note o = read_checkpoint_untied_offset [OF tr r nv]
  have "config tr = huge_config\<lparr>vocab_size := 1073741821\<rparr>"
    unfolding o(1) by (simp add: huge_config_def c_abs_def)
  with o(2) f have "wcls (weights tr) = token_embedding_table (weights tr)"
    by (simp add: word_of_int_eq_0_iff)
  with r f tr show ?thesis by simp
qed

section \<open>Properties of the forward pass and the generation loop\<close>

lemma replicate_4: "replicate 4 c = [c, c, c, c]"
  by (simp add: numeral_eq_Suc)

lemma forward_layers_fields:
  "forward_layers reduce tr dev ls s = Inr s' \<Longrightarrow>
   s_x s' = s_x s \<and> s_xb2 s' = s_xb2 s \<and> s_hb s' = s_hb s \<and> s_hb2 s' = s_hb2 s \<and>
   s_q s' = s_q s \<and> s_att s' = s_att s \<and> s_logits s' = s_logits s \<and>
   s_key_cache s' = s_key_cache s \<and> s_value_cache s' = s_value_cache s"
proof (induction ls arbitrary: s)
  case Nil
  then show ?case by simp
next
  case (Cons l ls)
  then show ?case by (fastforce split: sum.splits prod.splits)
qed

text \<open>
  Whatever its arguments, a call of \<^verbatim>\<open>forward\<close> that comes back hands no logits to its
  caller and leaves the logits buffer, both caches and the attention, query and hidden
  buffers as they were.
\<close>

lemma forward_result:
  assumes "forward reduce tr token pos dev = Inr (tr', r)"
  shows "r = None \<and> s_logits (state tr') = s_logits (state tr) \<and>
         s_key_cache (state tr') = s_key_cache (state tr) \<and>
         s_value_cache (state tr') = s_value_cache (state tr) \<and>
         s_att (state tr') = s_att (state tr) \<and> s_q (state tr') = s_q (state tr) \<and>
         s_hb (state tr') = s_hb (state tr) \<and> s_hb2 (state tr') = s_hb2 (state tr) \<and>
         s_xb2 (state tr') = s_xb2 (state tr)"
proof -
  from assms obtain row s' where
    s': "forward_layers reduce tr dev [0..<nat (ull (n_layers (config tr)))]
           (state tr\<lparr>s_x := row @ drop (nat (dim_cfg (config tr))) (s_x (state tr))\<rparr>) = Inr s'"
    and r: "r = None" and tr': "tr' = tr\<lparr>state := s'\<rparr>"
    unfolding forward_def Let_def
    by (auto split: option.splits if_splits sum.splits)
  from forward_layers_fields [OF s'] r tr' show ?thesis by simp
qed

text \<open>A run with a positive step budget always ends in a fatal exit.\<close>

lemma generate_loop_exits:
  "pos < n \<Longrightarrow> isl (generate_loop reduce tr toks n dev token pos)"
  by (simp add: generate_loop_def Let_def split: sum.splits prod.splits)

lemma generate_positive_budget: "0 < n \<Longrightarrow> isl (generate reduce tr tok prompt n dev)"
  by (simp add: generate_def Let_def generate_loop_exits split: sum.splits)

lemma forward_tiny:
  "forward no_reduce tiny_transformer 1 pos cudaCpuDeviceId =
     Inr (tiny_transformer\<lparr>state := tiny_state\<lparr>s_x := [1, 1, 1, 1],
            s_xb := [1 / sqrt (100001 / 100000), 1 / sqrt (100001 / 100000),
                     1 / sqrt (100001 / 100000), 1 / sqrt (100001 / 100000)]\<rparr>\<rparr>, None)"
  unfolding forward_def Let_def
  by (simp add: tiny_transformer_def tiny_config_def tiny_weights_def tiny_state_def c_div_def
      trunc_div_def ull_def c_int_def read_floats_def rmsnorm_def cudaCpuDeviceId_def replicate_4
      upt_conv_Cons Let_def)

text \<open>
  C1 fails on the code. On the example transformer (all weights one), token 1, position 0,
  host path: \<^verbatim>\<open>forward\<close> copies the embedding row into \<^verbatim>\<open>x\<close>, writes the attention RMSNorm
  of layer 0 into \<^verbatim>\<open>xb\<close>, and comes back. Nothing else has changed: the logits buffer and the
  two caches hold what they held, and no logits vector is handed to the caller.
\<close>

theorem forward_tiny_returns_no_logits:
  "forward no_reduce tiny_transformer 1 0 cudaCpuDeviceId =
     Inr (tiny_transformer\<lparr>state := tiny_state\<lparr>s_x := [1, 1, 1, 1],
            s_xb := [1 / sqrt (100001 / 100000), 1 / sqrt (100001 / 100000),
                     1 / sqrt (100001 / 100000), 1 / sqrt (100001 / 100000)]\<rparr>\<rparr>, None) \<and>
   snd (projr (forward no_reduce tiny_transformer 1 0 cudaCpuDeviceId)) = None \<and>
   s_logits (state (fst (projr (forward no_reduce tiny_transformer 1 0 cudaCpuDeviceId))))
     = s_logits (state tiny_transformer) \<and>
   s_key_cache (state (fst (projr (forward no_reduce tiny_transformer 1 0 cudaCpuDeviceId))))
     = s_key_cache (state tiny_transformer) \<and>
   s_value_cache (state (fst (projr (forward no_reduce tiny_transformer 1 0 cudaCpuDeviceId))))
     = s_value_cache (state tiny_transformer)"
  by (simp add: forward_tiny) (simp add: tiny_transformer_def)

lemma forward_tiny_after:
  "forward no_reduce tiny_after 3 pos cudaCpuDeviceId = Inr (tiny_after, None)"
  "forward no_reduce tiny_after 6 pos cudaCpuDeviceId = Inr (tiny_after, None)"
  unfolding forward_def Let_def
  by (simp_all add: tiny_after_def tiny_transformer_def tiny_config_def tiny_weights_def
      tiny_state_def c_div_def trunc_div_def ull_def c_int_def read_floats_def rmsnorm_def
      cudaCpuDeviceId_def replicate_4 upt_conv_Cons Let_def)

lemma rmsnorm_error: "rmsnorm reduce out x p mem w sz dev = Inl e \<Longrightarrow> e = OutOfBounds"
  by (auto simp: rmsnorm_def Let_def split: option.splits if_splits)

lemma forward_layers_error: "forward_layers reduce tr dev ls s = Inl e \<Longrightarrow> e = OutOfBounds"
proof (induction ls arbitrary: s)
  case Nil
  then show ?case by simp
next
  case (Cons l ls)
  then show ?case by (auto dest: rmsnorm_error split: sum.splits)
qed

text \<open>
  C9, as the code has it. \<^verbatim>\<open>forward\<close> makes no test of the position: a call of \<^verbatim>\<open>forward\<close>,
  at the position \<^verbatim>\<open>max_seq_len\<close> or at any other, fails only at an integer division that
  traps or at an access outside a buffer, never with an error about the position.
\<close>

theorem forward_has_no_overflow_check:
  "(forward reduce tr token (max_seq_len (config tr)) dev = Inl e
      \<longrightarrow> e = ArithmeticTrap \<or> e = OutOfBounds) \<and>
   (forward reduce tr token pos dev = Inl e \<longrightarrow> e = ArithmeticTrap \<or> e = OutOfBounds)"
proof -
  have "e = ArithmeticTrap \<or> e = OutOfBounds" if "forward reduce tr token k dev = Inl e" for k
    using that unfolding forward_def Let_def
    by (auto dest: forward_layers_error split: option.splits sum.splits if_splits)
  then show ?thesis by blast
qed

text \<open>
  Witness for C9: the call that \<^verbatim>\<open>generate\<close> makes on the example checkpoint cut to its
  header fails, at the copy of the embedding row, which lies outside the buffer of 7
  floats.
\<close>

theorem forward_has_no_overflow_check_witness:
  "build_transformer ones (Some tiny_header) transformer0 =
     Inr (tiny_transformer\<lparr>data := replicate 7 1, file_size := 28\<rparr>) \<and>
   forward no_reduce (tiny_transformer\<lparr>data := replicate 7 1, file_size := 28\<rparr>) 1 0
     cudaCpuDeviceId = Inl OutOfBounds"
proof -
  let ?tr = "tiny_transformer\<lparr>data := replicate 7 1, file_size := 28\<rparr>"
  have "isl (forward no_reduce ?tr 1 0 cudaCpuDeviceId)"
    unfolding forward_def Let_def
    by (simp add: tiny_transformer_def tiny_config_def tiny_weights_def tiny_state_def c_div_def
        trunc_div_def c_int_def read_floats_def)
  then obtain e where e: "forward no_reduce ?tr 1 0 cudaCpuDeviceId = Inl e"
    by (cases "forward no_reduce ?tr 1 0 cudaCpuDeviceId") simp_all
  have "n_heads (config ?tr) = 2" "n_kv_heads (config ?tr) = 1" "dim_cfg (config ?tr) = 4"
    by (simp_all add: tiny_transformer_def tiny_config_def)
  then have "e \<noteq> ArithmeticTrap"
    using e unfolding forward_def Let_def
    by (auto simp: c_div_def c_int_def dest: forward_layers_error
        split: option.splits sum.splits if_splits)
  with forward_has_no_overflow_check [of no_reduce ?tr 1 cudaCpuDeviceId e 0] e
  have "forward no_reduce ?tr 1 0 cudaCpuDeviceId = Inl OutOfBounds" by simp
  then show ?thesis by (simp add: build_transformer_tiny_header)
qed

text \<open>
  Counterexample to C9 as stated: the example transformer has \<open>max_seq_len = 4\<close>, and
  \<^verbatim>\<open>forward\<close> at position 4 comes back without an error.
\<close>

theorem forward_at_max_seq_len:
  "max_seq_len (config tiny_transformer) = 4 \<and>
   \<not> isl (forward no_reduce tiny_transformer 1 4 cudaCpuDeviceId)"
  by (simp add: forward_tiny) (simp add: tiny_transformer_def tiny_config_def)

text \<open>
  The other half of C9 fails by the defect of C1. On the example transformer the four calls
  at the positions 0 to 3, with the tokens 1, 3, 6 and 6, all come back, and after them
  both caches hold what the allocator left in them: no slot has been written. So does a
  fifth call, at position 4.
\<close>

lemma forward_four_calls:
  "forward no_reduce tiny_transformer 1 0 cudaCpuDeviceId = Inr (tiny_after, None) \<and>
   forward no_reduce tiny_after 3 1 cudaCpuDeviceId = Inr (tiny_after, None) \<and>
   forward no_reduce tiny_after 6 2 cudaCpuDeviceId = Inr (tiny_after, None) \<and>
   forward no_reduce tiny_after 6 3 cudaCpuDeviceId = Inr (tiny_after, None) \<and>
   s_key_cache (state tiny_after) = alloc_floats (ones 8) 8 \<and>
   s_value_cache (state tiny_after) = alloc_floats (ones 9) 8 \<and>
   forward no_reduce tiny_after 6 4 cudaCpuDeviceId = Inr (tiny_after, None)"
proof -
  have "forward no_reduce tiny_transformer 1 0 cudaCpuDeviceId = Inr (tiny_after, None)"
    by (simp add: forward_tiny tiny_after_def)
  moreover have "s_key_cache (state tiny_after) = alloc_floats (ones 8) 8"
    "s_value_cache (state tiny_after) = alloc_floats (ones 9) 8"
    by (simp_all add: tiny_after_def tiny_transformer_def tiny_state_def
        alloc_floats_def ones_def [abs_def] map_const_upt)
  ultimately show ?thesis by (simp add: forward_tiny_after)
qed

lemma encode_ab: "encode tok_ab (Some ''ab'') 1 0 = Inr [1, 3, 6]"
  by (simp add: encode_def pre_merge_tokens_def tok_ab_def str_lookup_def is_continuation_def
      merge_loop.simps merge_step_def vocab_at_def score_at_def best_init_def merge_at_def Let_def)

text \<open>
  C2 fails on the code. With the example transformer and vocabulary, the prompt \<open>ab\<close> (three
  prompt tokens) and a budget of four steps, \<^verbatim>\<open>generate\<close> ends the process with
  \<^verbatim>\<open>exit(-1)\<close> in its first pass, at position 0; so does \<^verbatim>\<open>main\<close> on the example file.
\<close>

theorem generate_stops_after_one_step:
  "encode tok_ab (Some ''ab'') 1 0 = Inr [1, 3, 6] \<and>
   generate no_reduce tiny_transformer tok_ab (Some ''ab'') 4 cudaCpuDeviceId = Inl (Exit (-1)) \<and>
   main no_reduce ones 0 (Some tiny_blob) tok_ab (Some ''ab'') transformer0 tiny_params
     = Inl (Exit (-1))"
proof -
  have g: "generate no_reduce tiny_transformer tok_ab (Some ''ab'') 4 cudaCpuDeviceId
             = Inl (Exit (-1))"
    unfolding generate_def generate_loop_def Let_def
    by (simp add: encode_ab forward_tiny)
  have v: "validate_params 0 tiny_params = tiny_params"
    by (simp add: validate_params_def tiny_params_def cudaCpuDeviceId_def)
  have c: "clamp_steps (steps tiny_params) (max_seq_len (config tiny_transformer)) = 4"
    by (simp add: clamp_steps_def tiny_params_def tiny_transformer_def tiny_config_def)
  have d: "device tiny_params = cudaCpuDeviceId" "mode tiny_params = ''generate''"
    by (simp_all add: tiny_params_def cudaCpuDeviceId_def)
  have "main no_reduce ones 0 (Some tiny_blob) tok_ab (Some ''ab'') transformer0 tiny_params
          = Inl (Exit (-1))"
    unfolding main_def run_setup_def Let_def v build_transformer_tiny_blob
    by (simp add: c d g)
  with g encode_ab show ?thesis by simp
qed

section \<open>Properties of RMSNorm\<close>

text \<open>
  On every device but the host, and whatever the launches of \<^verbatim>\<open>reduce\<close> compute, \<^verbatim>\<open>rmsnorm\<close>
  leaves its output array as it was.
\<close>

lemma rmsnorm_device_path:
  "dev \<noteq> cudaCpuDeviceId \<Longrightarrow> \<exists>p'. rmsnorm reduce out x p mem w sz dev = Inr (out, p')"
  by (simp add: rmsnorm_def Let_def)

text \<open>
  C3 fails on the code. For the vector \<open>(3, 4)\<close> with weights one and an output array of
  zeros, the host path writes \<open>3 / sqrt 12.50001\<close> and \<open>4 / sqrt 12.50001\<close>; on device 0
  the output array still holds its zeros, whatever the launches compute. The two first
  components differ by more than the tolerance \<open>1e-4\<close>, relative to the host's.
\<close>

theorem rmsnorm_paths_differ:
  "rmsnorm reduce [0, 0] [3, 4] [0, 0] [1, 1] 0 2 cudaCpuDeviceId =
     Inr ([3 / sqrt (1250001 / 100000), 4 / sqrt (1250001 / 100000)], [0, 0]) \<and>
   fst (projr (rmsnorm reduce [0, 0] [3, 4] [0, 0] [1, 1] 0 2 0)) = [0, 0] \<and>
   \<bar>3 / sqrt (1250001 / 100000) - 0\<bar> > (1 / 10000) * \<bar>3 / sqrt (1250001 / 100000)\<bar>"
proof -
  have a: "rmsnorm reduce [0, 0] [3, 4] [0, 0] [1, 1] 0 2 cudaCpuDeviceId =
     Inr ([3 / sqrt (1250001 / 100000), 4 / sqrt (1250001 / 100000)], [0, 0])"
    unfolding rmsnorm_def Let_def
    by (simp add: read_floats_def cudaCpuDeviceId_def upt_conv_Cons)
  have b: "fst (projr (rmsnorm reduce [0, 0] [3, 4] [0, 0] [1, 1] 0 2 0)) = [0, 0]"
    unfolding rmsnorm_def Let_def by (simp add: cudaCpuDeviceId_def)
  have gap: "(1 / 10000) * \<bar>a\<bar> < \<bar>a - 0\<bar>" if "0 < a" for a :: real
    using that by linarith
  have "0 < 3 / sqrt (1250001 / 100000 :: real)" by simp
  then have c: "\<bar>3 / sqrt (1250001 / 100000) - 0\<bar>
                  > (1 / 10000) * \<bar>3 / sqrt (1250001 / 100000 :: real)\<bar>"
    by (rule gap)
  from a b c show ?thesis by blast
qed

section \<open>Properties of the run parameters\<close>

lemma run_setup_clamps:
  assumes "build_transformer fresh checkpoint tr0 = Inr tr"
  shows "run_setup fresh now checkpoint tr0 p =
           Inr (tr,
                (if steps p \<le> 0 \<or> steps p > max_seq_len (config tr) then max_seq_len (config tr)
                 else steps p),
                \<lparr>sampler_vocab_size = vocab_size (config tr),
                 sampler_temperature = (if temperature p < 0 then 0 else temperature p),
                 sampler_topp = (if topp p < 0 \<or> 1 \<le> topp p then 9 / 10 else topp p),
                 rng_state = (if rng_seed p = 0 then now else rng_seed p)\<rparr>,
                (if device p < 0 then cudaCpuDeviceId else device p))"
  unfolding run_setup_def Let_def assms
  by (simp add: validate_params_def clamp_steps_def build_sampler_def)

text \<open>
  C10, as the code has it. \<^verbatim>\<open>main\<close> rejects no value of a run parameter: on its way to
  \<^verbatim>\<open>generate\<close> it fails only where the loader fails, with the loader's error, and it ends
  in \<^verbatim>\<open>help_msg\<close> for an unknown mode. For a checkpoint that loads, the sampler is built
  with the time as seed when the seed is 0 and with the given seed otherwise, with
  temperature 0 for a temperature below 0, and with top-p 0.9 for a top-p outside
  \<open>[0, 1)\<close>; \<^verbatim>\<open>generate\<close> is called with \<^verbatim>\<open>max_seq_len\<close> steps when the step count is not
  positive (below 0 it becomes 0, and 0 becomes \<^verbatim>\<open>max_seq_len\<close>) or above \<^verbatim>\<open>max_seq_len\<close>,
  and on the host for a negative device; values in range are handed on as they are.
\<close>

theorem params_are_clamped:
  "run_setup fresh now checkpoint tr0 p =
     (case build_transformer fresh checkpoint tr0 of
        Inl e \<Rightarrow> Inl e
      | Inr tr \<Rightarrow>
          Inr (tr,
               (if steps p \<le> 0 \<or> steps p > max_seq_len (config tr) then max_seq_len (config tr)
                else steps p),
               \<lparr>sampler_vocab_size = vocab_size (config tr),
                sampler_temperature = (if temperature p < 0 then 0 else temperature p),
                sampler_topp = (if topp p < 0 \<or> 1 \<le> topp p then 9 / 10 else topp p),
                rng_state = (if rng_seed p = 0 then now else rng_seed p)\<rparr>,
               (if device p < 0 then cudaCpuDeviceId else device p))) \<and>
   main reduce fresh now checkpoint tok prompt tr0 p =
     (case build_transformer fresh checkpoint tr0 of
        Inl e \<Rightarrow> Inl e
      | Inr tr \<Rightarrow>
          if mode p = ''generate''
          then (case generate reduce tr tok prompt
                       (if steps p \<le> 0 \<or> steps p > max_seq_len (config tr)
                        then max_seq_len (config tr) else steps p)
                       (if device p < 0 then cudaCpuDeviceId else device p) of
                  Inl e \<Rightarrow> Inl e
                | Inr pos \<Rightarrow> Inr 0)
          else Inl (Exit EXIT_FAILURE)) \<and>
   steps (validate_params now p) = (if steps p < 0 then 0 else steps p) \<and>
   clamp_steps (steps (validate_params now p)) max_len =
     (if steps p \<le> 0 \<or> steps p > max_len then max_len else steps p)"
proof -
  have a: "run_setup fresh now checkpoint tr0 p =
     (case build_transformer fresh checkpoint tr0 of
        Inl e \<Rightarrow> Inl e
      | Inr tr \<Rightarrow>
          Inr (tr,
               (if steps p \<le> 0 \<or> steps p > max_seq_len (config tr) then max_seq_len (config tr)
                else steps p),
               \<lparr>sampler_vocab_size = vocab_size (config tr),
                sampler_temperature = (if temperature p < 0 then 0 else temperature p),
                sampler_topp = (if topp p < 0 \<or> 1 \<le> topp p then 9 / 10 else topp p),
                rng_state = (if rng_seed p = 0 then now else rng_seed p)\<rparr>,
               (if device p < 0 then cudaCpuDeviceId else device p)))"
  proof (cases "build_transformer fresh checkpoint tr0")
    case (Inl e)
    then show ?thesis by (simp add: run_setup_def)
  next
    case (Inr tr)
    from run_setup_clamps [OF this] Inr show ?thesis by simp
  qed
  have b: "main reduce fresh now checkpoint tok prompt tr0 p =
     (case build_transformer fresh checkpoint tr0 of
        Inl e \<Rightarrow> Inl e
      | Inr tr \<Rightarrow>
          if mode p = ''generate''
          then (case generate reduce tr tok prompt
                       (if steps p \<le> 0 \<or> steps p > max_seq_len (config tr)
                        then max_seq_len (config tr) else steps p)
                       (if device p < 0 then cudaCpuDeviceId else device p) of
                  Inl e \<Rightarrow> Inl e
                | Inr pos \<Rightarrow> Inr 0)
          else Inl (Exit EXIT_FAILURE))"
    unfolding main_def a by (simp split: sum.splits)
  have c: "steps (validate_params now p) = (if steps p < 0 then 0 else steps p)"
    by (simp add: validate_params_def)
  have d: "clamp_steps (steps (validate_params now p)) max_len =
     (if steps p \<le> 0 \<or> steps p > max_len then max_len else steps p)"
    unfolding c clamp_steps_def by auto
  from a b c d show ?thesis by blast
qed

text \<open>
  Witness for C10: on the example file, with seed 0, temperature \<open>-1\<close>, top-p 2, \<open>-3\<close> steps
  and device \<open>-7\<close>, the sampler is built with the time (here 1700000000), temperature 0 and
  top-p 0.9, and \<^verbatim>\<open>generate\<close> is called with 4 steps on the host: it runs, and ends as
  every run with a positive step count does. A checkpoint that cannot be opened ends the
  run with the loader's error, whatever the parameters.
\<close>

theorem params_are_clamped_witness:
  "run_setup ones 1700000000 (Some tiny_blob) transformer0 wild_params =
     Inr (tiny_transformer, 4,
          \<lparr>sampler_vocab_size = 8, sampler_temperature = 0, sampler_topp = 9 / 10,
           rng_state = 1700000000\<rparr>,
          cudaCpuDeviceId) \<and>
   main no_reduce ones 1700000000 (Some tiny_blob) tok_ab (Some ''ab'') transformer0 wild_params
     = generate no_reduce tiny_transformer tok_ab (Some ''ab'') 4 cudaCpuDeviceId \<and>
   generate no_reduce tiny_transformer tok_ab (Some ''ab'') 4 cudaCpuDeviceId = Inl (Exit (-1)) \<and>
   main no_reduce ones 1700000000 None tok_ab (Some ''ab'') transformer0 wild_params
     = Inl (Exit EXIT_FAILURE)"
proof -
  have g: "generate no_reduce tiny_transformer tok_ab (Some ''ab'') 4 cudaCpuDeviceId
             = Inl (Exit (-1))"
    unfolding generate_def generate_loop_def Let_def
    by (simp add: encode_ab forward_tiny)
  have c: "max_seq_len (config tiny_transformer) = 4" "vocab_size (config tiny_transformer) = 8"
    by (simp_all add: tiny_transformer_def tiny_config_def)
  have w: "steps wild_params = - 3" "temperature wild_params = - 1" "topp wild_params = 2"
    "rng_seed wild_params = 0" "device wild_params = - 7" "mode wild_params = ''generate''"
    by (simp_all add: wild_params_def)
  have n: "build_transformer ones None transformer0 = Inl (Exit EXIT_FAILURE)"
    by (simp add: build_transformer_def read_checkpoint_def)
  note t = params_are_clamped [of ones 1700000000 "Some tiny_blob" transformer0 wild_params
      no_reduce tok_ab "Some ''ab''"]
  note f = params_are_clamped [of ones 1700000000 None transformer0 wild_params
      no_reduce tok_ab "Some ''ab''"]
  from t have "run_setup ones 1700000000 (Some tiny_blob) transformer0 wild_params =
     Inr (tiny_transformer, 4,
          \<lparr>sampler_vocab_size = 8, sampler_temperature = 0, sampler_topp = 9 / 10,
           rng_state = 1700000000\<rparr>,
          cudaCpuDeviceId)"
    unfolding build_transformer_tiny_blob sum.case c w by simp
  moreover from t have
    "main no_reduce ones 1700000000 (Some tiny_blob) tok_ab (Some ''ab'') transformer0 wild_params
       = generate no_reduce tiny_transformer tok_ab (Some ''ab'') 4 cudaCpuDeviceId"
    unfolding build_transformer_tiny_blob sum.case c w by (simp add: g)
  moreover from f have
    "main no_reduce ones 1700000000 None tok_ab (Some ''ab'') transformer0 wild_params
       = Inl (Exit EXIT_FAILURE)"
    unfolding n by simp
  ultimately show ?thesis using g by simp
qed

text \<open>A seed argument that is not 0 is kept, whatever its sign.\<close>

lemma option_s_kept:
  assumes "- (2 ^ 31) \<le> k" and "k < 2 ^ 31" and "k \<noteq> 0"
  shows "rng_seed (validate_params now (option_s k p)) = word_of_int k \<and>
         rng_seed (validate_params now (option_s k p)) \<noteq> 0"
proof -
  have "\<not> (2 :: int) ^ 64 dvd k"
  proof
    assume "(2 :: int) ^ 64 dvd k"
    then obtain q where q: "k = 2 ^ 64 * q" by (auto simp: dvd_def)
    with assms(3) have "q \<noteq> 0" by auto
    then have "1 \<le> \<bar>q\<bar>" by linarith
    then have "(2 :: int) ^ 64 * 1 \<le> 2 ^ 64 * \<bar>q\<bar>" by (intro mult_left_mono) simp_all
    with q have "(2 :: int) ^ 64 \<le> \<bar>k\<bar>" by (simp add: abs_mult)
    with assms(1,2) show False by simp
  qed
  then have "(word_of_int k :: 64 word) \<noteq> 0" by (simp add: word_of_int_eq_0_iff)
  then show ?thesis by (simp add: validate_params_def option_s_def)
qed

text \<open>
  Counterexample to C10 as stated. With the option \<^verbatim>\<open>-s -5\<close> (and every other local at
  its initial value) the seed is not positive. \<^verbatim>\<open>rng_seed\<close> is an \<^verbatim>\<open>unsigned long long\<close>: the
  assignment makes the seed \<open>2 ^ 64 - 5\<close>, the test \<^verbatim>\<open>rng_seed <= 0\<close> fails for it, and on
  the example file the sampler is built with that seed, not with the current time,
  1700000000.
\<close>

theorem negative_seed_is_kept:
  "rng_seed (option_s (- 5) default_params) = 18446744073709551611 \<and>
   rng_seed (validate_params 1700000000 (option_s (- 5) default_params)) = 18446744073709551611 \<and>
   rng_seed (validate_params 1700000000 (option_s (- 5) default_params)) \<noteq> 1700000000 \<and>
   run_setup ones 1700000000 (Some tiny_blob) transformer0 (option_s (- 5) default_params) =
     Inr (tiny_transformer, 4,
          \<lparr>sampler_vocab_size = 8, sampler_temperature = 1, sampler_topp = 9 / 10,
           rng_state = 18446744073709551611\<rparr>,
          cudaCpuDeviceId)"
proof -
  have a: "rng_seed (option_s (- 5) default_params) = 18446744073709551611"
    by (simp add: option_s_def default_params_def)
  have b: "rng_seed (validate_params 1700000000 (option_s (- 5) default_params))
             = 18446744073709551611"
    by (simp add: validate_params_def option_s_def default_params_def)
  have c: "run_setup ones 1700000000 (Some tiny_blob) transformer0 (option_s (- 5) default_params) =
     Inr (tiny_transformer, 4,
          \<lparr>sampler_vocab_size = 8, sampler_temperature = 1, sampler_topp = 9 / 10,
           rng_state = 18446744073709551611\<rparr>,
          cudaCpuDeviceId)"
    unfolding run_setup_clamps [OF build_transformer_tiny_blob]
    by (simp add: option_s_def default_params_def tiny_transformer_def tiny_config_def
        cudaCpuDeviceId_def)
  from a c show ?thesis unfolding b by simp
qed

end
